theory Spec2Isabelle
  imports Main
begin

section \<open>Python strings\<close>

text \<open>
  A Python \<open>str\<close> is a sequence of Unicode code points: \<open>len\<close> counts code points and
  a regular-expression character class matches one code point. The fullwidth colon
  (U+FF1A, code point 65306) that \<open>parse_classical_filename\<close> looks for is a single
  character of the source, so a string is modelled as the list of its code points.
  \<open>asc\<close> turns an ASCII literal into that representation.
\<close>

type_synonym pystr = "nat list"

definition asc :: "string \<Rightarrow> pystr" where
  "asc s = map of_char s"

text \<open>
  \<open>str.isspace\<close>, \<open>str.strip()\<close> without argument and the regular expression class
  \<open>\s\<close> on a \<open>str\<close> pattern all use the same Unicode whitespace set.
\<close>

definition is_space :: "nat \<Rightarrow> bool" where
  "is_space c =
     ((9 \<le> c \<and> c \<le> 13) \<or> (28 \<le> c \<and> c \<le> 32) \<or> c = 133 \<or> c = 160 \<or> c = 5760
      \<or> (8192 \<le> c \<and> c \<le> 8202) \<or> c = 8232 \<or> c = 8233 \<or> c = 8239 \<or> c = 8287
      \<or> c = 12288)"

definition strip :: "pystr \<Rightarrow> pystr" where
  "strip s = rev (dropWhile is_space (rev (dropWhile is_space s)))"

text \<open>\<open>s.replace(a, b)\<close> for one-character \<open>a\<close> and \<open>b\<close>.\<close>

definition replace_char :: "nat \<Rightarrow> nat \<Rightarrow> pystr \<Rightarrow> pystr" where
  "replace_char a b s = map (\<lambda>c. if c = a then b else c) s"

text \<open>\<open>s.rfind(c)\<close>: the index of the last occurrence of \<open>c\<close>, or \<open>-1\<close>.\<close>

fun rfind_from :: "nat \<Rightarrow> pystr \<Rightarrow> int \<Rightarrow> int \<Rightarrow> int" where
  "rfind_from c [] i r = r"
| "rfind_from c (x # xs) i r = rfind_from c xs (i + 1) (if x = c then i else r)"

definition rfind :: "nat \<Rightarrow> pystr \<Rightarrow> int" where
  "rfind c s = rfind_from c s 0 (- 1)"

text \<open>\<open>needle in s\<close> for strings: \<open>needle\<close> occurs as a contiguous substring.\<close>

fun contains :: "pystr \<Rightarrow> pystr \<Rightarrow> bool" where
  "contains [] needle = (needle = [])"
| "contains (c # cs) needle = (take (length needle) (c # cs) = needle \<or> contains cs needle)"

text \<open>
  \<open>os.path.splitext\<close> on POSIX (\<open>genericpath._splitext\<close> with separator \<open>/\<close> and
  extension separator \<open>.\<close>): the extension starts at the last dot, provided that dot
  lies after the last separator and some character between the separator and that dot is
  not a dot (leading dots of the base name do not start an extension).
\<close>

definition splitext :: "pystr \<Rightarrow> pystr \<times> pystr" where
  "splitext p =
     (let sepIndex = rfind 47 p;
          dotIndex = rfind 46 p
      in if dotIndex > sepIndex \<and>
            list_ex (\<lambda>c. c \<noteq> 46)
              (take (nat dotIndex - nat (sepIndex + 1)) (drop (nat (sepIndex + 1)) p))
         then (take (nat dotIndex) p, drop (nat dotIndex) p)
         else (p, []))"

section \<open>auto\_tagger.py: heuristic filename parsing\<close>

text \<open>
  The delimiter class \<open>[:\<dots>\-]\<close> of the regular expression in
  \<open>parse_classical_filename\<close>: the colon (58), the fullwidth colon (65306) and the
  hyphen (45).
\<close>

definition is_delim :: "nat \<Rightarrow> bool" where
  "is_delim c = (c = 58 \<or> c = 65306 \<or> c = 45)"

text \<open>
  \<open>re.split(r"[:\<dots>\-]\s*", s, maxsplit=1)\<close>: the leftmost delimiter character together
  with the (greedy) run of whitespace after it is cut out of the string; without any
  delimiter the result is the one-element list holding the string.
\<close>

definition re_split_delim :: "pystr \<Rightarrow> pystr list" where
  "re_split_delim s =
     (case dropWhile (\<lambda>c. \<not> is_delim c) s of
        [] \<Rightarrow> [s]
      | d # rest \<Rightarrow> [takeWhile (\<lambda>c. \<not> is_delim c) s, dropWhile is_space rest])"

definition parse_classical_filename :: "pystr \<Rightarrow> pystr \<times> pystr" where
  "parse_classical_filename filename =
     (let name_no_ext = fst (splitext filename);
          name_no_ext = replace_char 45 32 (replace_char 95 32 name_no_ext);
          match = re_split_delim name_no_ext;
          guesses = (if length match = 2
                     then (strip (match ! 0), strip (match ! 1))
                     else (asc ''Unknown'', name_no_ext));
          composer_guess = (if length (fst guesses) < 2 then asc ''Unknown''
                            else fst guesses)
      in (composer_guess, snd guesses))"

text \<open>
  The description of the parser in the specification's words, written without the
  functions of the code above: the name with its extension removed and every underscore
  and every hyphen turned into a space; the position of the first character of that
  string that belongs to the delimiter set (colon, fullwidth colon, hyphen); and the
  guesses read off at that position. \<open>first_colon\<close> is the position of the first colon
  or fullwidth colon.
\<close>

definition normalized_name :: "pystr \<Rightarrow> pystr" where
  "normalized_name filename =
     map (\<lambda>c. if c = 95 \<or> c = 45 then 32 else c) (fst (splitext filename))"

fun first_delimiter :: "pystr \<Rightarrow> nat option" where
  "first_delimiter [] = None"
| "first_delimiter (c # cs) =
     (if c = 58 \<or> c = 65306 \<or> c = 45 then Some 0
      else map_option Suc (first_delimiter cs))"

fun first_colon :: "pystr \<Rightarrow> nat option" where
  "first_colon [] = None"
| "first_colon (c # cs) =
     (if c = 58 \<or> c = 65306 then Some 0 else map_option Suc (first_colon cs))"

definition heuristic_guess :: "pystr \<Rightarrow> pystr \<times> pystr" where
  "heuristic_guess filename =
     (let n = normalized_name filename
      in case first_delimiter n of
           None \<Rightarrow> (asc ''Unknown'', n)
         | Some i \<Rightarrow>
             ((if length (strip (take i n)) < 2 then asc ''Unknown'' else strip (take i n)),
              strip (drop (Suc i) n)))"

section \<open>Exceptions\<close>

text \<open>
  Every \<open>raise\<close> of the source and every exception of a library call is a value:
  \<open>ValueError\<close> carries the message of the source, \<open>LibraryError\<close> stands for an
  exception raised inside a collaborator (HTTP client, catalog client, video library,
  transcoder, tag library), \<open>IndexError\<close> for an index into an empty list and
  \<open>EOFError\<close> for \<open>input()\<close> at the end of the input. All of them are subclasses of
  \<open>Exception\<close>.
\<close>

datatype exn = ValueError string | LibraryError string | IndexError | EOFError

section \<open>Tagged audio files and the tag library\<close>

text \<open>
  A file either has no ID3 header or carries a tag. Of a tag the model keeps the text
  fields as \<open>EasyID3\<close> reads them (a key mapped to its list of values) and the embedded
  pictures (the APIC frames, in no particular order). The file system is a map from paths
  to files.
\<close>

type_synonym fields = "string \<rightharpoonup> pystr list"

record picture =
  mime :: string
  pic_type :: nat
  desc :: string
  pic_data :: "nat list"

record id3 =
  text_fields :: fields
  pictures :: "picture list"

type_synonym mp3 = "id3 option"

type_synonym filesystem = "pystr \<rightharpoonup> mp3"

definition empty_id3 :: id3 where
  "empty_id3 = \<lparr>text_fields = Map.empty, pictures = []\<rparr>"

text \<open>The text fields stored in the file at a path (none for a missing or untagged file).\<close>

definition fields_on_disk :: "filesystem \<Rightarrow> pystr \<Rightarrow> fields" where
  "fields_on_disk fs path =
     (case fs path of
        Some (Some t) \<Rightarrow> text_fields t
      | _ \<Rightarrow> Map.empty)"

definition pictures_on_disk :: "filesystem \<Rightarrow> pystr \<Rightarrow> picture list" where
  "pictures_on_disk fs path =
     (case fs path of
        Some (Some t) \<Rightarrow> pictures t
      | _ \<Rightarrow> [])"

text \<open>
  What the scripts do with a tag is a list of assignments \<open>audio[key] = value\<close> to an
  \<open>EasyID3\<close> object, in the order they are made (a single string is assigned as the
  one-element list); the value assigned to a key is the one assigned last.
\<close>

type_synonym assignments = "(string \<times> pystr list) list"

definition assigned_value :: "assignments \<Rightarrow> string \<Rightarrow> pystr list option" where
  "assigned_value a k = map_of (rev a) k"

text \<open>
  What a value looks like once it is written to a file is decided by the tag library, which
  is not part of the scripts. The model takes it as a parameter and assumes nothing about
  it beyond the shape of the two save operations:
  \<^item> \<open>save_error\<close>: whether \<open>EasyID3.save()\<close> raises for the assignments made;
  \<^item> \<open>stored\<close>: what the file holds in a key after a value was assigned to it and the
    tag was saved (\<open>None\<close> when the library writes no frame for it);
  \<^item> \<open>kept\<close>: what the file holds afterwards in the keys that were not assigned;
  \<^item> \<open>stored_v23\<close> and \<open>kept_v23\<close>: the same once the tag has been loaded and saved
    again with \<open>save(v2_version=3)\<close>;
  \<^item> \<open>loaded_pictures\<close>: the pictures of a tag as the library loads them, which are the
    ones a save writes back.
\<close>

record taglib =
  save_error :: "assignments \<Rightarrow> exn option"
  stored :: "string \<Rightarrow> pystr list \<Rightarrow> pystr list option"
  kept :: "fields \<Rightarrow> fields"
  stored_v23 :: "string \<Rightarrow> pystr list \<Rightarrow> pystr list option"
  kept_v23 :: "fields \<Rightarrow> fields"
  loaded_pictures :: "picture list \<Rightarrow> picture list"

text \<open>
  \<open>EasyID3.save()\<close> of a tag that was loaded from the file and then assigned to: it
  raises, or it leaves the tag with the assigned keys as the library stores them, the other
  keys as it keeps them and the pictures it loaded.
\<close>

definition easy_save :: "taglib \<Rightarrow> id3 \<Rightarrow> assignments \<Rightarrow> exn + id3" where
  "easy_save T tag a =
     (case save_error T a of
        Some e \<Rightarrow> Inl e
      | None \<Rightarrow>
          Inr \<lparr>text_fields =
                 (\<lambda>k. case assigned_value a k of
                         None \<Rightarrow> kept T (text_fields tag) k
                       | Some v \<Rightarrow> stored T k v),
               pictures = loaded_pictures T (pictures tag)\<rparr>)"

text \<open>
  The end of \<open>set_metadata\<close>: the tag that \<open>easy_save\<close> left is loaded with \<open>ID3\<close>, the
  picture is assigned under the key \<open>APIC\<close> and the tag is saved as version 2.3. The
  loaded pictures are filed under keys of the form \<open>APIC:description\<close>, never under
  \<open>APIC\<close> itself, so the assigned picture replaces none of them: it is written in
  addition to them.
\<close>

definition save_v23 :: "taglib \<Rightarrow> id3 \<Rightarrow> assignments \<Rightarrow> picture \<Rightarrow> id3" where
  "save_v23 T tag a apic =
     \<lparr>text_fields =
        (\<lambda>k. case assigned_value a k of
                None \<Rightarrow> kept_v23 T (text_fields tag) k
              | Some v \<Rightarrow> stored_v23 T k v),
      pictures = loaded_pictures T (pictures tag) @ [apic]\<rparr>"

section \<open>auto\_tagger.py: catalog lookup and tag writing\<close>





definition get_or :: "'a option \<Rightarrow> 'a \<Rightarrow> 'a" where
  "get_or v d = (case v of None \<Rightarrow> d | Some x \<Rightarrow> x)"


text \<open>
  \<open>store_if_present\<close>, the local function of \<open>set_id3_tags\<close>: \<open>audio\<close> is the list of
  assignments made to the \<open>EasyID3\<close> object so far.
\<close>

definition store_if_present :: "(string \<rightharpoonup> pystr) \<Rightarrow> string \<Rightarrow> string \<Rightarrow> assignments \<Rightarrow> assignments" where
  "store_if_present mb_data field key audio =
     (case mb_data key of
        None \<Rightarrow> audio
      | Some val \<Rightarrow>
          if val \<noteq> []
          then audio @ [(field, [if val = asc ''[unknown]'' then asc ''Unknown'' else val])]
          else audio)"

text \<open>The assignments \<open>set_id3_tags\<close> makes: its six calls of \<open>store_if_present\<close>.\<close>

definition tagger_assignments :: "(string \<rightharpoonup> pystr) \<Rightarrow> assignments" where
  "tagger_assignments mb_data =
     (let audio = [];
          audio = store_if_present mb_data ''title'' ''title'' audio;
          audio = store_if_present mb_data ''artist'' ''artist'' audio;
          audio = store_if_present mb_data ''album'' ''album'' audio;
          audio = store_if_present mb_data ''date'' ''date'' audio;
          audio = store_if_present mb_data ''composer'' ''composer'' audio;
          audio = store_if_present mb_data ''genre'' ''genre'' audio
      in audio)"

text \<open>
  \<open>set_id3_tags\<close> returns nothing and catches every exception, so its effect is the file
  system it leaves. Opening a path that holds no file raises inside the tag library; a
  file without header gets an empty tag, saved at once; when the final save raises, the
  file stays as it was then.
\<close>

definition set_id3_tags ::
  "taglib \<Rightarrow> filesystem \<Rightarrow> pystr \<Rightarrow> (string \<rightharpoonup> pystr) \<Rightarrow> filesystem" where
  "set_id3_tags T fs filepath mb_data =
     (case fs filepath of
        None \<Rightarrow> fs
      | Some file \<Rightarrow>
          (let fs1 = (case file of None \<Rightarrow> fs(filepath \<mapsto> Some empty_id3) | Some t \<Rightarrow> fs);
               tag = (case file of None \<Rightarrow> empty_id3 | Some t \<Rightarrow> t)
           in case easy_save T tag (tagger_assignments mb_data) of
                Inl e \<Rightarrow> fs1
              | Inr saved \<Rightarrow> fs1(filepath \<mapsto> Some saved)))"


definition endswith :: "pystr \<Rightarrow> pystr \<Rightarrow> bool" where
  "endswith s suffix = (length suffix \<le> length s \<and> drop (length s - length suffix) s = suffix)"

text \<open>\<open>os.path.join(a, b)\<close> on POSIX, for two components.\<close>

definition path_join :: "pystr \<Rightarrow> pystr \<Rightarrow> pystr" where
  "path_join a b =
     (if take 1 b = [47] then b
      else if a = [] \<or> endswith a [47] then a @ b
      else a @ [47] @ b)"



section \<open>spotify-dowloader.py: the catalog and the outside world\<close>

text \<open>
  The record the catalog client returns for a track, with the entries \<open>get_track_info\<close>
  reads, and the metadata dictionary it builds from them.
\<close>

record track =
  tr_artists :: "pystr list"
  tr_name :: pystr
  tr_number :: int
  tr_isrc :: "pystr option"
  tr_images :: "pystr list"
  tr_album_name :: pystr
  tr_release_date :: pystr

record metadata =
  artist_name :: pystr
  track_title :: pystr
  track_number :: int
  isrc :: pystr
  album_art :: pystr
  album_name :: pystr
  release_date :: pystr
  artists :: "pystr list"

text \<open>
  One page of \<open>sp.playlist_items\<close>: for each item its \<open>track\<close> (\<open>None\<close> when the item
  has none) with the track's \<open>id\<close> (\<open>None\<close> when it has none), and the \<open>next\<close> entry.
\<close>

record playlist_page =
  items :: "pystr option option list"
  next_page :: "pystr option"

text \<open>
  The collaborators, as functions the run consults: the HTTP status of a URL, the catalog
  client (\<open>sp.track\<close>, the \<open>public\<close> entry of \<open>sp.playlist\<close>, \<open>sp.playlist_items\<close> at an
  offset), the search transport (what the \<open>n\<close>-th call of \<open>urlopen\<close> on the search URL
  does: it raises, \<open>None\<close>, or gives a response whose \<open>read().decode()\<close> raises or yields
  the page text), the video library (title; audio stream downloaded and transcoded to an
  MP3 file), the artwork download, and the tag library.
\<close>

record env =
  http_status :: "pystr \<Rightarrow> exn + nat"
  sp_track :: "pystr \<Rightarrow> exn + track"
  sp_playlist_public :: "pystr \<Rightarrow> exn + bool option"
  sp_playlist_items :: "pystr \<Rightarrow> nat \<Rightarrow> exn + playlist_page"
  urlopen_search :: "nat \<Rightarrow> pystr \<Rightarrow> (exn + pystr) option"
  yt_title :: "pystr \<Rightarrow> exn + pystr"
  yt_audio :: "pystr \<Rightarrow> exn + mp3"
  urlopen_art :: "pystr \<Rightarrow> exn + nat list"
  tag_library :: taglib

text \<open>
  The state a run changes: the lines still to be read by \<open>input()\<close>, the global
  \<open>file_exists_action\<close>, the files, the number of search requests sent so far, and the
  trace of search attempts, sleeps and prompts in the order they happen.
\<close>

datatype event = Attempt pystr | Sleep nat | Prompt

record world =
  stdin :: "pystr list"
  file_exists_action :: pystr
  files :: filesystem
  clock :: nat
  trace :: "event list"

section \<open>spotify-dowloader.py: catalog functions\<close>

text \<open>
  The pattern \<open>.+$\<close> at the end of the URL pattern: at least one character other than a
  newline, up to the end of the string or up to a newline that ends the string.
\<close>

definition rest_of_line :: "pystr \<Rightarrow> bool" where
  "rest_of_line s =
     (takeWhile (\<lambda>c. c \<noteq> 10) s \<noteq> [] \<and>
      (dropWhile (\<lambda>c. c \<noteq> 10) s = [] \<or> dropWhile (\<lambda>c. c \<noteq> 10) s = [10]))"

definition startswith :: "pystr \<Rightarrow> pystr \<Rightarrow> bool" where
  "startswith s p = (take (length p) s = p)"

text \<open>\<open>re.search\<close> of \<open>^(https?://)?open\.spotify\.com/(playlist|track)/.+$\<close>.\<close>

definition url_pattern :: "pystr \<Rightarrow> bool" where
  "url_pattern s =
     (let s1 = (if startswith s (asc ''https://'') then drop 8 s
                else if startswith s (asc ''http://'') then drop 7 s
                else s)
      in startswith s1 (asc ''open.spotify.com/'') \<and>
         (let s2 = drop 17 s1
          in (startswith s2 (asc ''playlist/'') \<and> rest_of_line (drop 9 s2)) \<or>
             (startswith s2 (asc ''track/'') \<and> rest_of_line (drop 6 s2))))"

definition validate_spotify_url :: "pystr \<Rightarrow> exn + pystr" where
  "validate_spotify_url sp_url =
     (if url_pattern sp_url then Inr sp_url
      else Inl (ValueError ''Invalid Spotify URL format.''))"

definition get_track_info :: "env \<Rightarrow> pystr \<Rightarrow> exn + metadata" where
  "get_track_info E track_url =
     (case http_status E track_url of
        Inl e \<Rightarrow> Inl e
      | Inr status_code \<Rightarrow>
          if status_code \<noteq> 200
          then Inl (ValueError ''Invalid Spotify track URL or track not accessible.'')
          else
            (case sp_track E track_url of
               Inl e \<Rightarrow> Inl e
             | Inr track \<Rightarrow>
                 (case tr_artists track of
                    [] \<Rightarrow> Inl IndexError
                  | first_artist # _ \<Rightarrow>
                      (case tr_images track of
                         [] \<Rightarrow> Inl IndexError
                       | image0 # images \<Rightarrow>
                           Inr \<lparr>artist_name = first_artist,
                                track_title = tr_name track,
                                track_number = tr_number track,
                                isrc = get_or (tr_isrc track) [],
                                album_art = (case images of [] \<Rightarrow> image0 | image1 # _ \<Rightarrow> image1),
                                album_name = tr_album_name track,
                                release_date = tr_release_date track,
                                artists = tr_artists track\<rparr>))))"

text \<open>The \<open>for item in items\<close> loop of \<open>get_playlist_info\<close>.\<close>

fun playlist_items_loop :: "env \<Rightarrow> pystr option option list \<Rightarrow> metadata list \<Rightarrow> exn + metadata list" where
  "playlist_items_loop E [] tracks_info = Inr tracks_info"
| "playlist_items_loop E (item # rest) tracks_info =
     (case item of
        None \<Rightarrow> playlist_items_loop E rest tracks_info
      | Some None \<Rightarrow> playlist_items_loop E rest tracks_info
      | Some (Some track_id) \<Rightarrow>
          if track_id \<noteq> []
          then (case get_track_info E (asc ''https://open.spotify.com/track/'' @ track_id) of
                  Inl e \<Rightarrow> Inl e
                | Inr track_metadata \<Rightarrow>
                    playlist_items_loop E rest (tracks_info @ [track_metadata]))
          else playlist_items_loop E rest tracks_info)"

text \<open>
  The \<open>while True\<close> loop of \<open>get_playlist_info\<close>. It has two exits, an empty page and a
  page without \<open>next\<close>, and may run forever: not returning is the value \<open>None\<close>.
\<close>

partial_function (option) playlist_pages ::
  "env \<Rightarrow> pystr \<Rightarrow> nat \<Rightarrow> metadata list \<Rightarrow> (exn + metadata list) option" where
  "playlist_pages E playlist_url offset tracks_info =
     (case sp_playlist_items E playlist_url offset of
        Inl e \<Rightarrow> Some (Inl e)
      | Inr pl_tracks \<Rightarrow>
          if items pl_tracks = [] then Some (Inr tracks_info)
          else
            (case playlist_items_loop E (items pl_tracks) tracks_info of
               Inl e \<Rightarrow> Some (Inl e)
             | Inr tracks_info' \<Rightarrow>
                 if next_page pl_tracks = None \<or> next_page pl_tracks = Some []
                 then Some (Inr tracks_info')
                 else playlist_pages E playlist_url (offset + length (items pl_tracks))
                        tracks_info'))"

declare playlist_pages.simps [code]

definition get_playlist_info :: "env \<Rightarrow> pystr \<Rightarrow> (exn + metadata list) option" where
  "get_playlist_info E playlist_url =
     (case http_status E playlist_url of
        Inl e \<Rightarrow> Some (Inl e)
      | Inr status_code \<Rightarrow>
          if status_code \<noteq> 200
          then Some (Inl (ValueError ''Invalid or inaccessible Spotify playlist URL.''))
          else
            (case sp_playlist_public E playlist_url of
               Inl e \<Rightarrow> Some (Inl e)
             | Inr public \<Rightarrow>
                 if public \<noteq> Some True
                 then Some (Inl (ValueError
                        ''Cannot download from a private playlist. Make it public first.''))
                 else playlist_pages E playlist_url 0 []))"

section \<open>spotify-dowloader.py: search\<close>

text \<open>
  The first match of \<open>watch\?v=(\S{11})\<close> in the page, which is \<open>search_results[0]\<close>
  when \<open>re.findall\<close> finds anything.
\<close>

fun first_watch_id :: "pystr \<Rightarrow> pystr option" where
  "first_watch_id [] = None"
| "first_watch_id (c # cs) =
     (if startswith (c # cs) (asc ''watch?v='') \<and>
         length (take 11 (drop 8 (c # cs))) = 11 \<and>
         list_all (\<lambda>x. \<not> is_space x) (take 11 (drop 8 (c # cs)))
      then Some (take 11 (drop 8 (c # cs)))
      else first_watch_id cs)"

text \<open>
  The \<open>while attempts < 3\<close> loop of \<open>find_youtube\<close>: \<open>break\<close> on a response, otherwise
  count the attempt and sleep one second; the \<open>else\<close> branch of the loop (no response
  after the last attempt) is the result \<open>None\<close>.
\<close>

function find_youtube_attempts :: "env \<Rightarrow> pystr \<Rightarrow> nat \<Rightarrow> world \<Rightarrow> (exn + pystr) option \<times> world" where
  "find_youtube_attempts E url attempts w =
     (if attempts < 3 then
        (case urlopen_search E (clock w) url of
           Some response \<Rightarrow>
             (Some response,
              w\<lparr>clock := clock w + 1, trace := trace w @ [Attempt url]\<rparr>)
         | None \<Rightarrow>
             find_youtube_attempts E url (attempts + 1)
               (w\<lparr>clock := clock w + 1, trace := trace w @ [Attempt url, Sleep 1]\<rparr>))
      else (None, w))"
  by pat_completeness auto
termination
  by (relation "measure (\<lambda>(E, url, attempts, w). 3 - attempts)") auto

declare find_youtube_attempts.simps [simp del]

text \<open>The first two lines of \<open>find_youtube\<close>: the search URL of a query.\<close>

definition search_url :: "pystr \<Rightarrow> pystr" where
  "search_url query =
     (let phrase = replace_char 32 43 query
      in asc ''https://www.youtube.com/results?search_query='' @ phrase)"

definition find_youtube :: "env \<Rightarrow> world \<Rightarrow> pystr \<Rightarrow> (exn + pystr) \<times> world" where
  "find_youtube E w query =
     (case find_youtube_attempts E (search_url query) 0 w of
        (None, w') \<Rightarrow>
          (Inl (ValueError ''Failed to reach YouTube. Check internet connection.''), w')
      | (Some (Inl e), w') \<Rightarrow> (Inl e, w')
      | (Some (Inr search_html), w') \<Rightarrow>
          (case first_watch_id search_html of
             None \<Rightarrow> (Inl (ValueError ''No YouTube results found for query.''), w')
           | Some video \<Rightarrow> (Inr (asc ''https://www.youtube.com/watch?v='' @ video), w')))"

section \<open>spotify-dowloader.py: file collisions and download\<close>

text \<open>
  \<open>str.upper\<close> as far as it decides whether an answer typed at the prompt is one of R,
  RA, S, SA: the ASCII letters and the long s (U+017F, code point 383), whose upper case
  is S. No other character has an upper case made of the letters R, A and S.
\<close>

definition py_upper :: "pystr \<Rightarrow> pystr" where
  "py_upper s =
     map (\<lambda>c. if 97 \<le> c \<and> c \<le> 122 then c - 32 else if c = 383 then 83 else c) s"

text \<open>
  The \<open>while True\<close> loop of \<open>prompt_file_exists_action\<close> over the lines of the input;
  \<open>input()\<close> at the end of the input raises.
\<close>

fun prompt_loop :: "pystr list \<Rightarrow> world \<Rightarrow> (exn + bool) \<times> world" where
  "prompt_loop [] w = (Inl EOFError, w\<lparr>stdin := [], trace := trace w @ [Prompt]\<rparr>)"
| "prompt_loop (line # rest) w =
     (let resp = strip (py_upper line);
          w1 = w\<lparr>stdin := rest, trace := trace w @ [Prompt]\<rparr>
      in if resp = asc ''R'' \<or> resp = asc ''RA''
         then (Inr True,
               if resp = asc ''RA'' then w1\<lparr>file_exists_action := asc ''RA''\<rparr> else w1)
         else if resp = asc ''S'' \<or> resp = asc ''SA''
         then (Inr False,
               if resp = asc ''SA'' then w1\<lparr>file_exists_action := asc ''SA''\<rparr> else w1)
         else prompt_loop rest w1)"

definition prompt_file_exists_action :: "world \<Rightarrow> (exn + bool) \<times> world" where
  "prompt_file_exists_action w =
     (if file_exists_action w = asc ''SA'' \<or> file_exists_action w = asc ''RA''
      then (Inr (file_exists_action w = asc ''RA''), w)
      else prompt_loop (stdin w) w)"

text \<open>
  \<open>download_yt\<close>: the result is the exception raised, \<open>None\<close> for a skipped file, or the
  path of the MP3 file staged in the scratch directory.
\<close>

text \<open>The number of times the user has been prompted so far.\<close>

definition prompts :: "world \<Rightarrow> nat" where
  "prompts w = length (filter (\<lambda>e. e = Prompt) (trace w))"

definition download_yt :: "env \<Rightarrow> world \<Rightarrow> pystr \<Rightarrow> (exn + pystr option) \<times> world" where
  "download_yt E w yt_link =
     (case yt_title E yt_link of
        Inl e \<Rightarrow> (Inl e, w)
      | Inr title \<Rightarrow>
          (let safe_title = filter (\<lambda>c. c \<notin> set [47, 92, 124, 63, 42, 58, 62, 60, 34]) title;
               out_filename = safe_title @ asc ''.mp3'';
               final_path = path_join (asc ''../music'') out_filename
           in case (if files w final_path \<noteq> None then prompt_file_exists_action w
                    else (Inr True, w)) of
                (Inl e, w1) \<Rightarrow> (Inl e, w1)
              | (Inr False, w1) \<Rightarrow> (Inr None, w1)
              | (Inr True, w1) \<Rightarrow>
                  (case yt_audio E yt_link of
                     Inl e \<Rightarrow> (Inl e, w1)
                   | Inr audio \<Rightarrow>
                       (let final_tmp_path = path_join (asc ''../music/tmp'') out_filename
                        in (Inr (Some final_tmp_path),
                            w1\<lparr>files := (files w1)(final_tmp_path \<mapsto> audio)\<rparr>)))))"

section \<open>spotify-dowloader.py: metadata\<close>

text \<open>\<open>str\<close> of an integer: its decimal digits, with a minus sign when negative.\<close>

fun digits :: "nat \<Rightarrow> pystr" where
  "digits n = (if n < 10 then [48 + n] else digits (n div 10) @ [48 + n mod 10])"

definition py_str :: "int \<Rightarrow> pystr" where
  "py_str i = (if i < 0 then 45 # digits (nat (- i)) else digits (nat i))"

text \<open>
  The assignments \<open>set_metadata\<close> makes to the \<open>EasyID3\<close> object, and the picture frame
  it builds from the bytes of the artwork.
\<close>

definition downloader_assignments :: "metadata \<Rightarrow> assignments" where
  "downloader_assignments metadata =
     [(''albumartist'', [artist_name metadata]),
      (''artist'', artists metadata),
      (''album'', [album_name metadata]),
      (''title'', [track_title metadata]),
      (''date'', [release_date metadata]),
      (''tracknumber'', [py_str (track_number metadata)])] @
     (if isrc metadata \<noteq> [] then [(''isrc'', [isrc metadata])] else [])"

definition cover :: "nat list \<Rightarrow> picture" where
  "cover album_bytes =
     \<lparr>mime = ''image/jpeg'', pic_type = 3, desc = ''Cover'', pic_data = album_bytes\<rparr>"

text \<open>
  \<open>set_metadata\<close>. Opening a path that holds no file raises inside the tag library and
  the exception leaves the function; a file without header gets an empty tag, saved at
  once. The text fields are saved before the artwork is fetched, so an exception of the
  artwork download leaves the function with the text fields already on disk; only then is
  the picture added and the tag saved as version 2.3.
\<close>

definition set_metadata :: "env \<Rightarrow> world \<Rightarrow> metadata \<Rightarrow> pystr \<Rightarrow> (exn + unit) \<times> world" where
  "set_metadata E w metadata file_path =
     (case files w file_path of
        None \<Rightarrow> (Inl (LibraryError ''cannot open file''), w)
      | Some file \<Rightarrow>
          (let w0 = (case file of
                       None \<Rightarrow> w\<lparr>files := (files w)(file_path \<mapsto> Some empty_id3)\<rparr>
                     | Some t \<Rightarrow> w);
               tag = (case file of None \<Rightarrow> empty_id3 | Some t \<Rightarrow> t);
               audiofile = downloader_assignments metadata
           in case easy_save (tag_library E) tag audiofile of
                Inl e \<Rightarrow> (Inl e, w0)
              | Inr saved \<Rightarrow>
                  (case urlopen_art E (album_art metadata) of
                     Inl e \<Rightarrow> (Inl e, w\<lparr>files := (files w)(file_path \<mapsto> Some saved)\<rparr>)
                   | Inr album_bytes \<Rightarrow>
                       (Inr (),
                        w\<lparr>files := (files w)(file_path \<mapsto>
                          Some (save_v23 (tag_library E) saved audiofile
                                  (cover album_bytes)))\<rparr>))))"

section \<open>spotify-dowloader.py: the run\<close>

text \<open>\<open>os.path.basename\<close>, \<open>os.replace\<close> and \<open>shutil.rmtree\<close> of the scratch directory.\<close>

definition basename :: "pystr \<Rightarrow> pystr" where
  "basename p = drop (nat (rfind 47 p + 1)) p"

definition os_replace :: "filesystem \<Rightarrow> pystr \<Rightarrow> pystr \<Rightarrow> exn + filesystem" where
  "os_replace fs src dst =
     (case fs src of
        None \<Rightarrow> Inl (LibraryError ''no such file'')
      | Some file \<Rightarrow> Inr ((fs(src := None))(dst \<mapsto> file)))"

definition rmtree_tmp :: "filesystem \<Rightarrow> filesystem" where
  "rmtree_tmp fs = (\<lambda>p. if startswith p (asc ''../music/tmp/'') then None else fs p)"

text \<open>
  The \<open>for\<close> loop of \<open>main\<close> over the songs, with the count of downloaded songs. Only the
  call of \<open>find_youtube\<close> stands inside a \<open>try\<close> of its own, whose handler goes on with
  the next song; an exception of \<open>download_yt\<close>, \<open>set_metadata\<close> or \<open>os.replace\<close> leaves
  the loop.
\<close>

fun main_loop :: "env \<Rightarrow> metadata list \<Rightarrow> nat \<Rightarrow> world \<Rightarrow> (exn + nat) \<times> world" where
  "main_loop E [] downloaded_count w = (Inr downloaded_count, w)"
| "main_loop E (track_info # rest) downloaded_count w =
     (let search_term = artist_name track_info @ asc '' '' @ track_title track_info @ asc '' audio''
      in case find_youtube E w search_term of
           (Inl e, w1) \<Rightarrow> main_loop E rest downloaded_count w1
         | (Inr yt_link, w1) \<Rightarrow>
             (case download_yt E w1 yt_link of
                (Inl e, w2) \<Rightarrow> (Inl e, w2)
              | (Inr None, w2) \<Rightarrow> main_loop E rest downloaded_count w2
              | (Inr (Some audio_path), w2) \<Rightarrow>
                  if audio_path = [] then main_loop E rest downloaded_count w2
                  else
                    (case set_metadata E w2 track_info audio_path of
                       (Inl e, w3) \<Rightarrow> (Inl e, w3)
                     | (Inr u, w3) \<Rightarrow>
                         (case os_replace (files w3) audio_path
                                 (path_join (asc ''../music'') (basename audio_path)) of
                            Inl e \<Rightarrow> (Inl e, w3)
                          | Inr fs \<Rightarrow>
                              main_loop E rest (downloaded_count + 1) (w3\<lparr>files := fs\<rparr>)))))"

text \<open>
  The block of \<open>main\<close> that builds the list of songs from the validated URL: the test for
  \<open>"track"\<close> comes first. (The message of the last error is written here without its
  quotation marks.)
\<close>

definition build_songs :: "env \<Rightarrow> pystr \<Rightarrow> (exn + metadata list) option" where
  "build_songs E url =
     (if contains url (asc ''track'')
      then (case get_track_info E url of
              Inl e \<Rightarrow> Some (Inl e)
            | Inr track_metadata \<Rightarrow> Some (Inr [track_metadata]))
      else if contains url (asc ''playlist'') then get_playlist_info E url
      else Some (Inl (ValueError ''URL must point to a Spotify track or playlist.'')))"

text \<open>
  A run ends with the summary line (songs downloaded, songs in total) or in the outer
  handler, which prints the exception and nothing else; it may also never end, inside the
  pagination. The scratch directory is removed only on the way to the summary. An
  interrupt from the keyboard is not part of the model.
\<close>

datatype run_result = Completed nat nat | Aborted exn

definition main :: "env \<Rightarrow> world \<Rightarrow> (run_result \<times> world) option" where
  "main E w =
     (case stdin w of
        [] \<Rightarrow> Some (Aborted EOFError, w)
      | line # rest \<Rightarrow>
          (let w0 = w\<lparr>stdin := rest\<rparr>;
               spotify_url = strip line
           in case validate_spotify_url spotify_url of
                Inl e \<Rightarrow> Some (Aborted e, w0)
              | Inr url \<Rightarrow>
                  (case build_songs E url of
                     None \<Rightarrow> None
                   | Some (Inl e) \<Rightarrow> Some (Aborted e, w0)
                   | Some (Inr songs) \<Rightarrow>
                       (case main_loop E songs 0 w0 of
                          (Inl e, w1) \<Rightarrow> Some (Aborted e, w1)
                        | (Inr downloaded_count, w1) \<Rightarrow>
                            Some (Completed downloaded_count (length songs),
                                  w1\<lparr>files := rmtree_tmp (files w1)\<rparr>)))))"

section \<open>Example runs\<close>

text \<open>
  An example of a tag library, after the behaviour of the library the scripts use: it
  never raises, writes no frame for a key whose text is empty (so that the key is absent
  afterwards), keeps every other value as it is, joins the values of a key with a slash
  when the tag is saved as version 2.3, and on loading tells pictures with the same
  description apart by appending spaces to the description of the later ones.
\<close>

definition written :: "pystr list \<Rightarrow> pystr list option" where
  "written v = (if v = [] \<or> v = [[]] then None else Some v)"

fun join_slash :: "pystr list \<Rightarrow> pystr" where
  "join_slash [] = []"
| "join_slash [v] = v"
| "join_slash (v # vs) = v @ [47] @ join_slash vs"

fun fresh_desc :: "string list \<Rightarrow> string \<Rightarrow> nat \<Rightarrow> string" where
  "fresh_desc seen d 0 = d"
| "fresh_desc seen d (Suc n) = (if d \<in> set seen then fresh_desc seen (d @ '' '') n else d)"

fun rename_duplicates :: "string list \<Rightarrow> picture list \<Rightarrow> picture list" where
  "rename_duplicates seen [] = []"
| "rename_duplicates seen (p # ps) =
     (let d = fresh_desc seen (desc p) (length seen)
      in p\<lparr>desc := d\<rparr> # rename_duplicates (d # seen) ps)"

definition example_taglib :: taglib where
  "example_taglib =
     \<lparr>save_error = (\<lambda>a. None),
      stored = (\<lambda>k v. written v),
      kept = (\<lambda>f k. Option.bind (f k) written),
      stored_v23 = (\<lambda>k v. map_option (\<lambda>v. [join_slash v]) (written v)),
      kept_v23 = (\<lambda>f k. map_option (\<lambda>v. [join_slash v]) (Option.bind (f k) written)),
      loaded_pictures = rename_duplicates []\<rparr>"

text \<open>
  A world in which nothing has happened yet, and an environment in which every
  collaborator answers: URLs are reachable, the playlist is public and has the three
  tracks a, b and c on one page, a track's title is its identifier, the search page of a
  query names one video, whose title is "song" followed by the track's identifier, the
  downloaded audio has no tag, and the tag library is the example above. \<open>offline\<close> is
  the same environment with a search transport that never answers.
\<close>

definition fresh :: world where
  "fresh = \<lparr>stdin = [], file_exists_action = [], files = Map.empty, clock = 0, trace = []\<rparr>"

definition demo :: env where
  "demo =
     \<lparr>http_status = (\<lambda>u. Inr 200),
      sp_track = (\<lambda>u. Inr \<lparr>tr_artists = [asc ''A''], tr_name = drop 31 u, tr_number = 1,
                             tr_isrc = None, tr_images = [asc ''img''],
                             tr_album_name = asc ''Album'', tr_release_date = asc ''2020''\<rparr>),
      sp_playlist_public = (\<lambda>u. Inr (Some True)),
      sp_playlist_items = (\<lambda>u offset. Inr
         (if offset = 0
          then \<lparr>items = [Some (Some (asc ''a'')), Some (Some (asc ''b'')), Some (Some (asc ''c''))],
                next_page = None\<rparr>
          else \<lparr>items = [], next_page = None\<rparr>)),
      urlopen_search = (\<lambda>n u. Some (Inr (asc ''watch?v=0123456789'' @ take 1 (drop 47 u)))),
      yt_title = (\<lambda>link. Inr (asc ''song '' @ drop 42 link)),
      yt_audio = (\<lambda>link. Inr None),
      urlopen_art = (\<lambda>u. Inr []),
      tag_library = example_taglib\<rparr>"

definition offline :: env where
  "offline = demo\<lparr>urlopen_search := (\<lambda>n u. None)\<rparr>"

text \<open>The environment \<open>demo\<close> in which the video found for track b cannot be opened.\<close>

definition video_b_unavailable :: env where
  "video_b_unavailable =
     demo\<lparr>yt_title := (\<lambda>link. if drop 42 link = asc ''b''
                               then Inl (LibraryError ''video unavailable'')
                               else yt_title demo link)\<rparr>"

text \<open>The environment \<open>demo\<close> in which the search for track b finds no video.\<close>

definition search_b_no_match :: env where
  "search_b_no_match =
     demo\<lparr>urlopen_search := (\<lambda>n u. if take 1 (drop 47 u) = asc ''b''
                                   then Some (Inr (asc ''no results''))
                                   else urlopen_search demo n u)\<rparr>"

text \<open>
  A catalog whose every playlist page holds one item without a track and announces a
  further page, and a catalog in which the playlist is private.
\<close>

definition endless :: env where
  "endless =
     demo\<lparr>sp_playlist_items :=
       (\<lambda>u offset. Inr \<lparr>items = [None], next_page = Some (asc ''more'')\<rparr>)\<rparr>"

text \<open>
  A catalog whose playlist has the tracks a and b on its first page and then, while still
  announcing a further page, only pages without items.
\<close>

definition has_more_but_empty :: env where
  "has_more_but_empty =
     demo\<lparr>sp_playlist_items :=
       (\<lambda>u offset. Inr
          (if offset = 0
           then \<lparr>items = [Some (Some (asc ''a'')), Some (Some (asc ''b''))],
                 next_page = Some (asc ''more'')\<rparr>
           else \<lparr>items = [], next_page = Some (asc ''more'')\<rparr>))\<rparr>"


text \<open>
  Whether the pagination, started at an offset, meets within \<open>n\<close> pages a page that ends
  it: a failing request, a page without items, or a page without \<open>next\<close>.
\<close>

fun pages_end_within :: "nat \<Rightarrow> env \<Rightarrow> pystr \<Rightarrow> nat \<Rightarrow> bool" where
  "pages_end_within 0 E playlist_url offset = False"
| "pages_end_within (Suc n) E playlist_url offset =
     (case sp_playlist_items E playlist_url offset of
        Inl e \<Rightarrow> True
      | Inr pl_tracks \<Rightarrow>
          items pl_tracks = [] \<or> next_page pl_tracks = None \<or> next_page pl_tracks = Some [] \<or>
          pages_end_within n E playlist_url (offset + length (items pl_tracks)))"

section \<open>Example records\<close>

text \<open>
  A metadata record with an empty album name, and a catalog search that finds no
  recording.
\<close>

definition no_album :: metadata where
  "no_album =
     \<lparr>artist_name = asc ''A'', track_title = asc ''a'', track_number = 1, isrc = [],
      album_art = asc ''img'', album_name = [], release_date = asc ''2020'',
      artists = [asc ''A'']\<rparr>"

text \<open>The metadata of track a of the example playlist, and a file that holds an album.\<close>

definition track_a :: metadata where
  "track_a =
     \<lparr>artist_name = asc ''A'', track_title = asc ''a'', track_number = 1, isrc = [],
      album_art = asc ''img'', album_name = asc ''Album'', release_date = asc ''2020'',
      artists = [asc ''A'']\<rparr>"

definition old_album :: filesystem where
  "old_album =
     [asc ''../music/tmp/song a.mp3'' \<mapsto>
        Some \<lparr>text_fields = [''album'' \<mapsto> [asc ''Old'']], pictures = []\<rparr>]"


section \<open>Properties of the filename parser\<close>

lemma dropWhile_space_strip: "strip (dropWhile is_space s) = strip s"
  by (simp add: strip_def)

lemma first_delimiter_None:
  "first_delimiter s = None \<Longrightarrow> dropWhile (\<lambda>c. \<not> is_delim c) s = []"
  by (induction s) (auto simp: is_delim_def split: if_splits)

lemma first_delimiter_Some:
  "first_delimiter s = Some i \<Longrightarrow>
     takeWhile (\<lambda>c. \<not> is_delim c) s = take i s \<and>
     dropWhile (\<lambda>c. \<not> is_delim c) s = (s ! i) # drop (Suc i) s"
proof (induction s arbitrary: i)
  case Nil
  then show ?case by simp
next
  case (Cons c cs)
  show ?case
  proof (cases "c = 58 \<or> c = 65306 \<or> c = 45")
    case True
    with Cons.prems show ?thesis by (auto simp: is_delim_def)
  next
    case False
    with Cons.prems obtain j where j: "first_delimiter cs = Some j" "i = Suc j"
      by auto
    from Cons.IH [OF j(1)] False j(2) show ?thesis
      by (simp add: is_delim_def)
  qed
qed

lemma re_split_delim_None:
  "first_delimiter s = None \<Longrightarrow> re_split_delim s = [s]"
  by (simp add: re_split_delim_def first_delimiter_None)

lemma re_split_delim_Some:
  "first_delimiter s = Some i \<Longrightarrow>
     re_split_delim s = [take i s, dropWhile is_space (drop (Suc i) s)]"
  by (simp add: re_split_delim_def first_delimiter_Some)

lemma replace_chars_map:
  "replace_char 45 32 (replace_char 95 32 s) = map (\<lambda>c. if c = 95 \<or> c = 45 then 32 else c) s"
  by (induction s) (simp_all add: replace_char_def)

lemma parse_is_heuristic_guess: "parse_classical_filename f = heuristic_guess f"
proof (cases "first_delimiter (normalized_name f)")
  case None
  then show ?thesis
    by (simp add: parse_classical_filename_def heuristic_guess_def Let_def replace_chars_map
        normalized_name_def [symmetric] re_split_delim_None asc_def)
next
  case (Some i)
  then show ?thesis
    by (simp add: parse_classical_filename_def heuristic_guess_def Let_def replace_chars_map
        normalized_name_def [symmetric] re_split_delim_Some dropWhile_space_strip)
qed

lemma normalized_name_chars: "list_all (\<lambda>c. c \<noteq> 95 \<and> c \<noteq> 45) (normalized_name f)"
  by (auto simp: normalized_name_def list_all_iff)

lemma first_delimiter_colon:
  "list_all (\<lambda>c. c \<noteq> 95 \<and> c \<noteq> 45) s \<Longrightarrow> first_delimiter s = first_colon s"
  by (induction s) simp_all

lemmas parse_defs = parse_classical_filename_def splitext_def rfind_def asc_def
  replace_char_def re_split_delim_def is_delim_def strip_def is_space_def

text \<open>
  Claim C3. For every filename the parser removes the extension, turns underscores and
  hyphens into spaces and splits at the first character from the set colon, fullwidth
  colon, hyphen: the trimmed left segment is the artist guess, replaced by "Unknown" when
  it has fewer than two characters, and the trimmed right segment is the title guess;
  without a delimiter the artist is "Unknown" and the title is the whole normalized
  string. The normalized string holds no underscore and no hyphen, so the delimiter
  found is always a colon or a fullwidth colon, never a hyphen. "Chopin: Polonaise in G
  minor" gives ("Chopin", "Polonaise in G minor") and "ab" gives ("Unknown", "ab"); the
  further examples show the extension, the underscores and hyphens, a hyphen between
  artist and title, the whitespace around the segments, the fullwidth colon, an artist of
  one character and a name that starts with a dot.
\<close>

theorem parse_classical_filename_spec:
  "parse_classical_filename f = heuristic_guess f \<and>
   list_all (\<lambda>c. c \<noteq> 95 \<and> c \<noteq> 45) (normalized_name f) \<and>
   first_delimiter (normalized_name f) = first_colon (normalized_name f) \<and>
   parse_classical_filename (asc ''Chopin: Polonaise in G minor'') =
     (asc ''Chopin'', asc ''Polonaise in G minor'') \<and>
   parse_classical_filename (asc ''ab'') = (asc ''Unknown'', asc ''ab'') \<and>
   parse_classical_filename (asc ''Bach_J-S: Air_on-the G_string.mp3'') =
     (asc ''Bach J S'', asc ''Air on the G string'') \<and>
   parse_classical_filename (asc ''Bach - Fugue_in_G.mp3'') =
     (asc ''Unknown'', asc ''Bach   Fugue in G'') \<and>
   parse_classical_filename (asc '' Chopin '' @ [9, 58, 9, 32] @ asc ''Polonaise '' @ [9] @ asc ''.mp3'') =
     (asc ''Chopin'', asc ''Polonaise'') \<and>
   parse_classical_filename
       (asc ''Chopin'' @ [65306, 32] @ asc ''Polonaise in G minor, Op. posth..mp3'') =
     (asc ''Chopin'', asc ''Polonaise in G minor, Op. posth.'') \<and>
   parse_classical_filename (asc ''A: b: c.d.mp3'') = (asc ''Unknown'', asc ''b: c.d'') \<and>
   parse_classical_filename (asc ''.mp3'') = (asc ''Unknown'', asc ''.mp3'')"
proof (intro conjI)
  show "parse_classical_filename f = heuristic_guess f"
    by (rule parse_is_heuristic_guess)
  show "list_all (\<lambda>c. c \<noteq> 95 \<and> c \<noteq> 45) (normalized_name f)"
    by (rule normalized_name_chars)
  show "first_delimiter (normalized_name f) = first_colon (normalized_name f)"
    by (rule first_delimiter_colon) (rule normalized_name_chars)
  show "parse_classical_filename (asc ''Chopin: Polonaise in G minor'') =
     (asc ''Chopin'', asc ''Polonaise in G minor'')"
    by (simp add: parse_defs)
  show "parse_classical_filename (asc ''ab'') = (asc ''Unknown'', asc ''ab'')"
    by (simp add: parse_defs)
  show "parse_classical_filename (asc ''Bach_J-S: Air_on-the G_string.mp3'') =
     (asc ''Bach J S'', asc ''Air on the G string'')"
    by (simp add: parse_defs)
  show "parse_classical_filename (asc ''Bach - Fugue_in_G.mp3'') =
     (asc ''Unknown'', asc ''Bach   Fugue in G'')"
    by (simp add: parse_defs)
  show "parse_classical_filename (asc '' Chopin '' @ [9, 58, 9, 32] @ asc ''Polonaise '' @ [9] @ asc ''.mp3'') =
     (asc ''Chopin'', asc ''Polonaise'')"
    by (simp add: parse_defs)
  show "parse_classical_filename
       (asc ''Chopin'' @ [65306, 32] @ asc ''Polonaise in G minor, Op. posth..mp3'') =
     (asc ''Chopin'', asc ''Polonaise in G minor, Op. posth.'')"
    by (simp add: parse_defs)
  show "parse_classical_filename (asc ''A: b: c.d.mp3'') = (asc ''Unknown'', asc ''b: c.d'')"
    by (simp add: parse_defs)
  show "parse_classical_filename (asc ''.mp3'') = (asc ''Unknown'', asc ''.mp3'')"
    by (simp add: parse_defs)
qed

theorem parse_classical_filename_spec_witness:
  "heuristic_guess (asc ''Strauss_II - Waltz: An der schoenen, blauen Donau.MP3'') =
     (asc ''Strauss II   Waltz'', asc ''An der schoenen, blauen Donau'')"
  using parse_classical_filename_spec
    [of "asc ''Strauss_II - Waltz: An der schoenen, blauen Donau.MP3''"]
  by (simp add: parse_defs)

section \<open>Properties of the search\<close>

lemma attempts_fail_from:
  "(\<forall>i<k. urlopen_search E (clock w + i) u = None) \<Longrightarrow> a + k = 3 \<Longrightarrow>
   find_youtube_attempts E u a w =
     (None, w\<lparr>clock := clock w + k,
              trace := trace w @ concat (replicate k [Attempt u, Sleep 1])\<rparr>)"
proof (induction k arbitrary: a w)
  case 0
  then show ?case by (simp add: find_youtube_attempts.simps [of _ _ 3])
next
  case (Suc k)
  let ?w = "w\<lparr>clock := clock w + 1, trace := trace w @ [Attempt u, Sleep 1]\<rparr>"
  have f: "urlopen_search E (clock w) u = None" using Suc.prems(1) by force
  have "\<forall>i<k. urlopen_search E (clock ?w + i) u = None" using Suc.prems(1) by force
  moreover have "Suc a + k = 3" using Suc.prems(2) by simp
  ultimately have "find_youtube_attempts E u (Suc a) ?w = (None, ?w\<lparr>clock := clock ?w + k,
       trace := trace ?w @ concat (replicate k [Attempt u, Sleep 1])\<rparr>)"
    by (rule Suc.IH)
  moreover have "a < 3" using Suc.prems(2) by simp
  ultimately show ?case using f
    by (simp add: find_youtube_attempts.simps [of _ _ a])
qed

lemma attempts_success_at:
  "(\<forall>i<k. urlopen_search E (clock w + i) u = None) \<Longrightarrow> a + k < 3 \<Longrightarrow>
   urlopen_search E (clock w + k) u = Some r \<Longrightarrow>
   find_youtube_attempts E u a w =
     (Some r, w\<lparr>clock := clock w + k + 1,
                trace := trace w @ concat (replicate k [Attempt u, Sleep 1]) @ [Attempt u]\<rparr>)"
proof (induction k arbitrary: a w)
  case 0
  then show ?case by (simp add: find_youtube_attempts.simps [of _ _ a])
next
  case (Suc k)
  let ?w = "w\<lparr>clock := clock w + 1, trace := trace w @ [Attempt u, Sleep 1]\<rparr>"
  have f: "urlopen_search E (clock w) u = None" using Suc.prems(1) by force
  have "\<forall>i<k. urlopen_search E (clock ?w + i) u = None" using Suc.prems(1) by force
  moreover have "Suc a + k < 3" using Suc.prems(2) by simp
  moreover have "urlopen_search E (clock ?w + k) u = Some r" using Suc.prems(3) by simp
  ultimately have "find_youtube_attempts E u (Suc a) ?w = (Some r, ?w\<lparr>clock := clock ?w + k + 1,
       trace := trace ?w @ concat (replicate k [Attempt u, Sleep 1]) @ [Attempt u]\<rparr>)"
    by (rule Suc.IH)
  moreover have "a < 3" using Suc.prems(2) by simp
  ultimately show ?case using f
    by (simp add: find_youtube_attempts.simps [of _ _ a])
qed

text \<open>
  Claim C5. A search whose transport fails on every attempt is attempted exactly three
  times, with a sleep of one second after each failed attempt, and then raises the error
  that the transport cannot be reached; a search whose transport answers on some attempt
  makes no further attempt.
\<close>

theorem find_youtube_retries:
  "((\<forall>i<3. urlopen_search E (clock w + i) (search_url query) = None) \<longrightarrow>
      find_youtube E w query =
        (Inl (ValueError ''Failed to reach YouTube. Check internet connection.''),
         w\<lparr>clock := clock w + 3,
           trace := trace w @ [Attempt (search_url query), Sleep 1,
                               Attempt (search_url query), Sleep 1,
                               Attempt (search_url query), Sleep 1]\<rparr>)) \<and>
   (k < 3 \<and> (\<forall>i<k. urlopen_search E (clock w + i) (search_url query) = None) \<and>
    urlopen_search E (clock w + k) (search_url query) = Some response \<longrightarrow>
      snd (find_youtube E w query) =
        w\<lparr>clock := clock w + k + 1,
          trace := trace w @ concat (replicate k [Attempt (search_url query), Sleep 1]) @
                   [Attempt (search_url query)]\<rparr>)"
proof (intro conjI impI)
  assume "\<forall>i<3. urlopen_search E (clock w + i) (search_url query) = None"
  from attempts_fail_from [OF this, of 0]
  show "find_youtube E w query =
        (Inl (ValueError ''Failed to reach YouTube. Check internet connection.''),
         w\<lparr>clock := clock w + 3,
           trace := trace w @ [Attempt (search_url query), Sleep 1,
                               Attempt (search_url query), Sleep 1,
                               Attempt (search_url query), Sleep 1]\<rparr>)"
    by (simp add: find_youtube_def numeral_3_eq_3)
next
  assume h: "k < 3 \<and> (\<forall>i<k. urlopen_search E (clock w + i) (search_url query) = None) \<and>
    urlopen_search E (clock w + k) (search_url query) = Some response"
  then have "find_youtube_attempts E (search_url query) 0 w =
     (Some response, w\<lparr>clock := clock w + k + 1,
        trace := trace w @ concat (replicate k [Attempt (search_url query), Sleep 1]) @
                 [Attempt (search_url query)]\<rparr>)"
    by (intro attempts_success_at) auto
  then show "snd (find_youtube E w query) =
        w\<lparr>clock := clock w + k + 1,
          trace := trace w @ concat (replicate k [Attempt (search_url query), Sleep 1]) @
                   [Attempt (search_url query)]\<rparr>"
    by (simp add: find_youtube_def split: sum.splits option.splits)
qed

theorem find_youtube_retries_witness:
  "find_youtube offline fresh (asc ''A a audio'') =
     (Inl (ValueError ''Failed to reach YouTube. Check internet connection.''),
      fresh\<lparr>clock := 3,
            trace := [Attempt (search_url (asc ''A a audio'')), Sleep 1,
                      Attempt (search_url (asc ''A a audio'')), Sleep 1,
                      Attempt (search_url (asc ''A a audio'')), Sleep 1]\<rparr>) \<and>
   snd (find_youtube (demo\<lparr>urlopen_search := (\<lambda>n u. if n = 1 then Some (Inr []) else None)\<rparr>)
          fresh (asc ''A a audio'')) =
     fresh\<lparr>clock := 2,
           trace := [Attempt (search_url (asc ''A a audio'')), Sleep 1,
                     Attempt (search_url (asc ''A a audio''))]\<rparr>"
  using find_youtube_retries [where E = offline and w = fresh and query = "asc ''A a audio''"]
    find_youtube_retries [where k = 1 and w = fresh and query = "asc ''A a audio''"
      and response = "Inr []"
      and E = "demo\<lparr>urlopen_search := (\<lambda>n u. if n = 1 then Some (Inr []) else None)\<rparr>"]
  by (simp add: offline_def fresh_def)

section \<open>Properties of the pagination\<close>

lemma pages_empty:
  "sp_playlist_items E url off = Inr pg \<Longrightarrow> items pg = [] \<Longrightarrow>
     playlist_pages E url off acc = Some (Inr acc)"
  by (subst playlist_pages.simps) simp

lemma pages_last:
  "sp_playlist_items E url off = Inr pg \<Longrightarrow> items pg \<noteq> [] \<Longrightarrow>
   next_page pg = None \<or> next_page pg = Some [] \<Longrightarrow>
     playlist_pages E url off acc = Some (playlist_items_loop E (items pg) acc)"
  by (subst playlist_pages.simps) (auto split: sum.splits)

lemma pages_terminate:
  "pages_end_within n E url off \<Longrightarrow> \<exists>r. playlist_pages E url off acc = Some r"
proof (induction n arbitrary: off acc)
  case 0
  then show ?case by simp
next
  case (Suc n)
  show ?case
  proof (cases "sp_playlist_items E url off")
    case (Inl e)
    then show ?thesis by (subst playlist_pages.simps) simp
  next
    case (Inr pg)
    show ?thesis
    proof (cases "items pg = [] \<or> next_page pg = None \<or> next_page pg = Some []")
      case True
      with Inr show ?thesis
        by (subst playlist_pages.simps) (auto split: sum.splits)
    next
      case False
      with Suc.prems Inr have "pages_end_within n E url (off + length (items pg))" by auto
      from Suc.IH [OF this] have "\<And>acc'. \<exists>r. playlist_pages E url (off + length (items pg)) acc' = Some r" .
      with Inr False show ?thesis
        by (subst playlist_pages.simps) (auto split: sum.splits)
    qed
  qed
qed

lemma endless_never_returns:
  assumes "playlist_pages E url off acc = Some r"
  shows "E \<noteq> endless"
proof (rule playlist_pages.raw_induct [where P = "\<lambda>E url off acc r. E \<noteq> endless", OF _ assms])
  fix f E url off acc r
  assume IH: "\<And>E url off acc r. f E url off acc = Some r \<Longrightarrow> E \<noteq> endless"
    and step: "(case sp_playlist_items E url off of
        Inl e \<Rightarrow> Some (Inl e)
      | Inr pl_tracks \<Rightarrow>
          if items pl_tracks = [] then Some (Inr acc)
          else
            (case playlist_items_loop E (items pl_tracks) acc of
               Inl e \<Rightarrow> Some (Inl e)
             | Inr tracks_info' \<Rightarrow>
                 if next_page pl_tracks = None \<or> next_page pl_tracks = Some []
                 then Some (Inr tracks_info')
                 else f E url (off + length (items pl_tracks))
                        tracks_info')) = Some r"
  show "E \<noteq> endless"
  proof
    assume e: "E = endless"
    have "sp_playlist_items endless url off = Inr \<lparr>items = [None], next_page = Some (asc ''more'')\<rparr>"
      by (simp add: endless_def)
    with step e have "f endless url (off + 1) acc = Some r"
      by (simp add: asc_def)
    from IH [OF this] show False by simp
  qed
qed

lemma endless_pages: "playlist_pages endless url off acc = None"
  using endless_never_returns [of endless url off acc] by (cases "playlist_pages endless url off acc") auto

lemma endless_get_playlist_info: "get_playlist_info endless url = None"
proof -
  have "http_status endless url = Inr 200" "sp_playlist_public endless url = Inr (Some True)"
    by (simp_all add: endless_def demo_def)
  then show ?thesis by (simp add: get_playlist_info_def endless_pages)
qed

lemma url_xyz:
  "validate_spotify_url (strip (asc ''https://open.spotify.com/playlist/xyz'')) =
     Inr (asc ''https://open.spotify.com/playlist/xyz'')"
  "\<not> contains (asc ''https://open.spotify.com/playlist/xyz'') (asc ''track'')"
  "contains (asc ''https://open.spotify.com/playlist/xyz'') (asc ''playlist'')"
  by (simp_all add: validate_spotify_url_def url_pattern_def rest_of_line_def startswith_def
      strip_def is_space_def asc_def)

lemma has_more_but_empty_sp:
  "http_status has_more_but_empty u = Inr 200"
  "sp_playlist_public has_more_but_empty u = Inr (Some True)"
  "sp_playlist_items has_more_but_empty u 0 =
     Inr \<lparr>items = [Some (Some (asc ''a'')), Some (Some (asc ''b''))],
          next_page = Some (asc ''more'')\<rparr>"
  "0 < n \<Longrightarrow> sp_playlist_items has_more_but_empty u n =
     Inr \<lparr>items = [], next_page = Some (asc ''more'')\<rparr>"
  by (simp_all add: has_more_but_empty_def demo_def)

text \<open>
  Claim C6, as stated, fails: for the catalog \<open>endless\<close>, whose every page has an item
  and announces a further page, the pagination never returns, and neither does the run.
\<close>

theorem endless_playlist_never_returns:
  "get_playlist_info endless (asc ''https://open.spotify.com/playlist/xyz'') = None \<and>
   main endless (fresh\<lparr>stdin := [asc ''https://open.spotify.com/playlist/xyz'']\<rparr>) = None"
  by (simp add: main_def url_xyz build_songs_def endless_get_playlist_info)

text \<open>
  Claim C6, amended. For every collection source that, within finitely many pages,
  fails, returns a page without members or reports no further page, the pagination
  terminates. It stops at the first page without members, whatever that page reports
  about further pages, and returns the items resolved so far; and it stops after
  resolving the members of the first page that reports no further page.
\<close>

theorem pagination_stops:
  "(pages_end_within n E url offset \<longrightarrow>
      (\<exists>r. playlist_pages E url offset tracks_info = Some r) \<and>
      (offset = 0 \<longrightarrow> (\<exists>r. get_playlist_info E url = Some r))) \<and>
   (sp_playlist_items E url offset = Inr page \<and> items page = [] \<longrightarrow>
      playlist_pages E url offset tracks_info = Some (Inr tracks_info)) \<and>
   (sp_playlist_items E url offset = Inr page \<and> items page \<noteq> [] \<and>
    (next_page page = None \<or> next_page page = Some []) \<longrightarrow>
      playlist_pages E url offset tracks_info =
        Some (playlist_items_loop E (items page) tracks_info))"
proof (intro conjI impI)
  assume "pages_end_within n E url offset"
  then show "\<exists>r. playlist_pages E url offset tracks_info = Some r"
    by (rule pages_terminate)
next
  assume "pages_end_within n E url offset" "offset = 0"
  then have "\<exists>r. playlist_pages E url 0 [] = Some r"
    by (simp add: pages_terminate)
  then show "\<exists>r. get_playlist_info E url = Some r"
    by (auto simp: get_playlist_info_def split: sum.splits)
next
  assume "sp_playlist_items E url offset = Inr page \<and> items page = []"
  then show "playlist_pages E url offset tracks_info = Some (Inr tracks_info)"
    by (simp add: pages_empty)
next
  assume "sp_playlist_items E url offset = Inr page \<and> items page \<noteq> [] \<and>
    (next_page page = None \<or> next_page page = Some [])"
  then show "playlist_pages E url offset tracks_info =
        Some (playlist_items_loop E (items page) tracks_info)"
    by (simp add: pages_last)
qed

theorem pagination_stops_witness:
  "(\<exists>r. get_playlist_info has_more_but_empty (asc ''https://open.spotify.com/playlist/xyz'') =
          Some r) \<and>
   playlist_pages has_more_but_empty (asc ''https://open.spotify.com/playlist/xyz'') 2 [] =
     Some (Inr []) \<and>
   playlist_pages demo (asc ''https://open.spotify.com/playlist/xyz'') 0 [] =
     Some (playlist_items_loop demo
             [Some (Some (asc ''a'')), Some (Some (asc ''b'')), Some (Some (asc ''c''))] [])"
proof (intro conjI)
  let ?u = "asc ''https://open.spotify.com/playlist/xyz''"
  have "pages_end_within (Suc (Suc 0)) has_more_but_empty ?u 0"
    by (simp add: has_more_but_empty_sp)
  with pagination_stops [where n = "Suc (Suc 0)" and E = has_more_but_empty and offset = 0
      and url = ?u]
  show "\<exists>r. get_playlist_info has_more_but_empty ?u = Some r"
    by simp
  have "sp_playlist_items has_more_but_empty ?u 2 =
          Inr \<lparr>items = [], next_page = Some (asc ''more'')\<rparr>"
    by (simp add: has_more_but_empty_sp)
  with pagination_stops [where E = has_more_but_empty and offset = 2 and tracks_info = "[]"
      and url = ?u and page = "\<lparr>items = [], next_page = Some (asc ''more'')\<rparr>"]
  show "playlist_pages has_more_but_empty ?u 2 [] = Some (Inr [])"
    by simp
  have "sp_playlist_items demo ?u 0 =
          Inr \<lparr>items = [Some (Some (asc ''a'')), Some (Some (asc ''b'')),
                         Some (Some (asc ''c''))], next_page = None\<rparr>"
    by (simp add: demo_def)
  with pagination_stops [where E = demo and offset = 0 and tracks_info = "[]"
      and url = ?u
      and page = "\<lparr>items = [Some (Some (asc ''a'')), Some (Some (asc ''b'')),
                              Some (Some (asc ''c''))], next_page = None\<rparr>"]
  show "playlist_pages demo ?u 0 [] =
     Some (playlist_items_loop demo
             [Some (Some (asc ''a'')), Some (Some (asc ''b'')), Some (Some (asc ''c''))] [])"
    by simp
qed

section \<open>Properties of the run\<close>

lemmas string_defs = asc_def startswith_def endswith_def path_join_def strip_def is_space_def
  replace_char_def basename_def rfind_def

lemmas run_defs = main_def validate_spotify_url_def url_pattern_def rest_of_line_def
  build_songs_def get_playlist_info_def get_track_info_def get_or_def
  find_youtube_def search_url_def find_youtube_attempts.simps download_yt_def
  set_metadata_def downloader_assignments_def easy_save_def save_v23_def cover_def
  example_taglib_def os_replace_def rmtree_tmp_def empty_id3_def py_str_def
  prompt_file_exists_action_def Let_def

text \<open>
  Claim C10. The test for "track" comes before the test for "playlist" and looks anywhere
  in the URL: the valid playlist URL whose identifier is 37i9dQZF1DXtrack0000AB is handed
  to \<open>get_track_info\<close>, whatever the catalog holds, and the run over it has one song
  where the playlist has three.
\<close>

theorem playlist_url_resolved_as_track:
  "validate_spotify_url (asc ''https://open.spotify.com/playlist/37i9dQZF1DXtrack0000AB'') =
     Inr (asc ''https://open.spotify.com/playlist/37i9dQZF1DXtrack0000AB'') \<and>
   startswith (asc ''https://open.spotify.com/playlist/37i9dQZF1DXtrack0000AB'')
     (asc ''https://open.spotify.com/playlist/'') \<and>
   build_songs E (asc ''https://open.spotify.com/playlist/37i9dQZF1DXtrack0000AB'') =
     (case get_track_info E (asc ''https://open.spotify.com/playlist/37i9dQZF1DXtrack0000AB'') of
        Inl e \<Rightarrow> Some (Inl e)
      | Inr track_metadata \<Rightarrow> Some (Inr [track_metadata])) \<and>
   map_option fst (main demo
     (fresh\<lparr>stdin := [asc ''https://open.spotify.com/playlist/37i9dQZF1DXtrack0000AB'']\<rparr>)) =
     Some (Completed 1 1)"
proof (intro conjI)
  show "validate_spotify_url (asc ''https://open.spotify.com/playlist/37i9dQZF1DXtrack0000AB'') =
     Inr (asc ''https://open.spotify.com/playlist/37i9dQZF1DXtrack0000AB'')"
    by (simp add: validate_spotify_url_def url_pattern_def startswith_def rest_of_line_def asc_def)
  show "startswith (asc ''https://open.spotify.com/playlist/37i9dQZF1DXtrack0000AB'')
     (asc ''https://open.spotify.com/playlist/'')"
    by (simp add: startswith_def asc_def)
  show "build_songs E (asc ''https://open.spotify.com/playlist/37i9dQZF1DXtrack0000AB'') =
     (case get_track_info E (asc ''https://open.spotify.com/playlist/37i9dQZF1DXtrack0000AB'') of
        Inl e \<Rightarrow> Some (Inl e)
      | Inr track_metadata \<Rightarrow> Some (Inr [track_metadata]))"
    by (simp add: build_songs_def asc_def)
  show "map_option fst (main demo
     (fresh\<lparr>stdin := [asc ''https://open.spotify.com/playlist/37i9dQZF1DXtrack0000AB'']\<rparr>)) =
     Some (Completed 1 1)"
    by (simp add: run_defs string_defs demo_def fresh_def)
qed



text \<open>
  Claim C1. The claim holds for a failing search: in a run over three songs in which the
  search for the second finds no video, the summary is 2 of 3. It fails for the later
  stages: when the video of the second song cannot be opened, the exception leaves the
  loop, the run ends in the outer handler without a summary, and the third song is
  neither searched for nor downloaded; when the artwork of a song cannot be fetched while
  its tags are written, the run ends there as well.
\<close>

theorem download_failure_aborts_run:
  "map_option fst (main search_b_no_match
     (fresh\<lparr>stdin := [asc ''https://open.spotify.com/playlist/xyz'']\<rparr>)) =
     Some (Completed 2 3) \<and>
   map_option fst (main video_b_unavailable
     (fresh\<lparr>stdin := [asc ''https://open.spotify.com/playlist/xyz'']\<rparr>)) =
     Some (Aborted (LibraryError ''video unavailable'')) \<and>
   map_option (\<lambda>(r, w). (clock w, files w (asc ''../music/song a.mp3'') \<noteq> None,
                          files w (asc ''../music/song c.mp3'') \<noteq> None))
     (main video_b_unavailable
       (fresh\<lparr>stdin := [asc ''https://open.spotify.com/playlist/xyz'']\<rparr>)) =
     Some (2, True, False) \<and>
   map_option fst (main (demo\<lparr>urlopen_art := (\<lambda>u. Inl (LibraryError ''artwork unavailable''))\<rparr>)
     (fresh\<lparr>stdin := [asc ''https://open.spotify.com/playlist/xyz'']\<rparr>)) =
     Some (Aborted (LibraryError ''artwork unavailable''))"
proof (intro conjI)
  show "map_option fst (main search_b_no_match
     (fresh\<lparr>stdin := [asc ''https://open.spotify.com/playlist/xyz'']\<rparr>)) =
     Some (Completed 2 3)"
    by (simp add: run_defs string_defs search_b_no_match_def demo_def fresh_def
        playlist_pages.simps)
  show "map_option fst (main video_b_unavailable
     (fresh\<lparr>stdin := [asc ''https://open.spotify.com/playlist/xyz'']\<rparr>)) =
     Some (Aborted (LibraryError ''video unavailable''))"
    by (simp add: run_defs string_defs video_b_unavailable_def demo_def fresh_def
        playlist_pages.simps)
  show "map_option (\<lambda>(r, w). (clock w, files w (asc ''../music/song a.mp3'') \<noteq> None,
                          files w (asc ''../music/song c.mp3'') \<noteq> None))
     (main video_b_unavailable
       (fresh\<lparr>stdin := [asc ''https://open.spotify.com/playlist/xyz'']\<rparr>)) =
     Some (2, True, False)"
    by (simp add: run_defs string_defs video_b_unavailable_def demo_def fresh_def
        playlist_pages.simps)
  show "map_option fst (main (demo\<lparr>urlopen_art := (\<lambda>u. Inl (LibraryError ''artwork unavailable''))\<rparr>)
     (fresh\<lparr>stdin := [asc ''https://open.spotify.com/playlist/xyz'']\<rparr>)) =
     Some (Aborted (LibraryError ''artwork unavailable''))"
    by (simp add: run_defs string_defs demo_def fresh_def playlist_pages.simps)
qed

section \<open>Properties of the sticky decision\<close>

lemma attempts_keep:
  "find_youtube_attempts E u a w = (r, w') \<Longrightarrow>
     stdin w' = stdin w \<and> file_exists_action w' = file_exists_action w \<and>
     files w' = files w \<and> prompts w' = prompts w"
proof (induction E u a w rule: find_youtube_attempts.induct)
  case (1 E u a w)
  show ?case
  proof (cases "a < 3")
    case False
    with "1.prems" show ?thesis by (simp add: find_youtube_attempts.simps [of _ _ a])
  next
    case True
    show ?thesis
    proof (cases "urlopen_search E (clock w) u")
      case None
      with True "1.prems" have "find_youtube_attempts E u (a + 1)
          (w\<lparr>clock := clock w + 1, trace := trace w @ [Attempt u, Sleep 1]\<rparr>) = (r, w')"
        by (simp add: find_youtube_attempts.simps [of _ _ a])
      from "1.IH" [OF True None this] show ?thesis by (simp add: prompts_def)
    next
      case (Some resp)
      with True "1.prems" show ?thesis
        by (auto simp: find_youtube_attempts.simps [of _ _ a] prompts_def)
    qed
  qed
qed

lemma find_youtube_keep:
  "find_youtube E w q = (r, w') \<Longrightarrow>
     stdin w' = stdin w \<and> file_exists_action w' = file_exists_action w \<and>
     files w' = files w \<and> prompts w' = prompts w"
  by (auto simp: find_youtube_def split: prod.splits option.splits sum.splits dest: attempts_keep)

lemma prompt_sticky:
  "file_exists_action w = asc ''RA'' \<or> file_exists_action w = asc ''SA'' \<Longrightarrow>
     prompt_file_exists_action w = (Inr (file_exists_action w = asc ''RA''), w)"
  by (auto simp: prompt_file_exists_action_def)

lemma download_yt_keep:
  "file_exists_action w = asc ''RA'' \<or> file_exists_action w = asc ''SA'' \<Longrightarrow>
   download_yt E w link = (r, w') \<Longrightarrow>
     stdin w' = stdin w \<and> file_exists_action w' = file_exists_action w \<and>
     prompts w' = prompts w"
  by (auto simp: download_yt_def prompt_sticky Let_def prompts_def split: sum.splits if_splits bool.splits)

lemma set_metadata_keep:
  "set_metadata E w m p = (r, w') \<Longrightarrow>
     stdin w' = stdin w \<and> file_exists_action w' = file_exists_action w \<and>
     prompts w' = prompts w"
  by (auto simp: set_metadata_def Let_def prompts_def split: option.splits sum.splits)

lemma main_loop_keep:
  "file_exists_action w = asc ''RA'' \<or> file_exists_action w = asc ''SA'' \<Longrightarrow>
   main_loop E songs n w = (r, w') \<Longrightarrow>
     stdin w' = stdin w \<and> file_exists_action w' = file_exists_action w \<and>
     prompts w' = prompts w"
proof (induction songs arbitrary: n w)
  case Nil
  then show ?case by simp
next
  case (Cons t rest)
  obtain r1 w1 where fy: "find_youtube E w (artist_name t @ asc '' '' @ track_title t @ asc '' audio'') = (r1, w1)"
    by (cases "find_youtube E w (artist_name t @ asc '' '' @ track_title t @ asc '' audio'')")
  note k1 = find_youtube_keep [OF fy]
  then have s1: "file_exists_action w1 = asc ''RA'' \<or> file_exists_action w1 = asc ''SA''"
    using Cons.prems(1) by simp
  show ?case
  proof (cases r1)
    case (Inl e)
    with Cons.prems(2) fy have "main_loop E rest n w1 = (r, w')" by simp
    from Cons.IH [OF s1 this] k1 show ?thesis by simp
  next
    case (Inr yt_link)
    obtain r2 w2 where dl: "download_yt E w1 yt_link = (r2, w2)"
      by (cases "download_yt E w1 yt_link")
    note k2 = download_yt_keep [OF s1 dl]
    then have s2: "file_exists_action w2 = asc ''RA'' \<or> file_exists_action w2 = asc ''SA''"
      using s1 by simp
    show ?thesis
    proof (cases r2)
      case (Inl e)
      with Cons.prems(2) fy Inr dl k1 k2 show ?thesis by simp
    next
      case r2: (Inr res)
      show ?thesis
      proof (cases "res = None \<or> res = Some []")
        case True
        with Cons.prems(2) fy Inr dl r2 have "main_loop E rest n w2 = (r, w')" by auto
        from Cons.IH [OF s2 this] k1 k2 show ?thesis by simp
      next
        case False
        then obtain audio_path where ap: "res = Some audio_path" "audio_path \<noteq> []" by auto
        obtain r3 w3 where sm: "set_metadata E w2 t audio_path = (r3, w3)"
          by (cases "set_metadata E w2 t audio_path")
        note k3 = set_metadata_keep [OF sm]
        show ?thesis
        proof (cases r3)
          case (Inl e)
          with Cons.prems(2) fy Inr dl r2 ap sm k1 k2 k3 show ?thesis by simp
        next
          case r3: (Inr u)
          show ?thesis
          proof (cases "os_replace (files w3) audio_path (path_join (asc ''../music'') (basename audio_path))")
            case (Inl e)
            with Cons.prems(2) fy Inr dl r2 ap sm r3 k1 k2 k3 show ?thesis by simp
          next
            case (Inr fs)
            with Cons.prems(2) fy \<open>r1 = Inr yt_link\<close> dl r2 ap sm r3
            have ml: "main_loop E rest (n + 1) (w3\<lparr>files := fs\<rparr>) = (r, w')" by simp
            have "file_exists_action (w3\<lparr>files := fs\<rparr>) = asc ''RA'' \<or>
                  file_exists_action (w3\<lparr>files := fs\<rparr>) = asc ''SA''"
              using s2 k3 by simp
            from Cons.IH [OF this ml] k1 k2 k3 show ?thesis by (simp add: prompts_def)
          qed
        qed
      qed
    qed
  qed
qed

lemma prompt_unset:
  "file_exists_action w \<noteq> asc ''RA'' \<Longrightarrow> file_exists_action w \<noteq> asc ''SA'' \<Longrightarrow>
   stdin w = line # rest \<Longrightarrow>
     prompt_file_exists_action w =
       (let w1 = w\<lparr>stdin := rest, trace := trace w @ [Prompt]\<rparr>
        in if strip (py_upper line) = asc ''RA''
           then (Inr True, w1\<lparr>file_exists_action := asc ''RA''\<rparr>)
           else if strip (py_upper line) = asc ''R'' then (Inr True, w1)
           else if strip (py_upper line) = asc ''SA''
           then (Inr False, w1\<lparr>file_exists_action := asc ''SA''\<rparr>)
           else if strip (py_upper line) = asc ''S'' then (Inr False, w1)
           else prompt_loop rest w1)"
  by (auto simp: prompt_file_exists_action_def Let_def asc_def)

text \<open>
  Claim C4. Once the global decision is "replace all" or "skip all", a collision is
  resolved by it without a prompt and without reading input, and the rest of the run
  (the loop over the remaining songs) neither changes the decision nor prompts or reads
  input again: an existing target is then downloaded again (replace all) or skipped (skip
  all). From the unset state the answers RA and SA set the decision and answer the
  current collision; the answers R and S answer the current collision and leave the
  decision unset.
\<close>

theorem sticky_decision:
  "(file_exists_action w = asc ''RA'' \<or> file_exists_action w = asc ''SA'' \<longrightarrow>
      prompt_file_exists_action w = (Inr (file_exists_action w = asc ''RA''), w) \<and>
      file_exists_action (snd (main_loop E songs n w)) = file_exists_action w \<and>
      stdin (snd (main_loop E songs n w)) = stdin w \<and>
      prompts (snd (main_loop E songs n w)) = prompts w \<and>
      (yt_title E link = Inr title \<and>
       files w (path_join (asc ''../music'')
                  (filter (\<lambda>c. c \<notin> set [47, 92, 124, 63, 42, 58, 62, 60, 34]) title @
                   asc ''.mp3'')) \<noteq> None \<longrightarrow>
         (file_exists_action w = asc ''SA'' \<longrightarrow> download_yt E w link = (Inr None, w)) \<and>
         (file_exists_action w = asc ''RA'' \<and> yt_audio E link = Inr audio \<longrightarrow>
            download_yt E w link =
              (Inr (Some (path_join (asc ''../music/tmp'')
                  (filter (\<lambda>c. c \<notin> set [47, 92, 124, 63, 42, 58, 62, 60, 34]) title @
                   asc ''.mp3''))),
               w\<lparr>files := (files w)(path_join (asc ''../music/tmp'')
                  (filter (\<lambda>c. c \<notin> set [47, 92, 124, 63, 42, 58, 62, 60, 34]) title @
                   asc ''.mp3'') \<mapsto> audio)\<rparr>)))) \<and>
   (file_exists_action w \<noteq> asc ''RA'' \<and> file_exists_action w \<noteq> asc ''SA'' \<and>
    stdin w = line # rest \<longrightarrow>
      (strip (py_upper line) = asc ''RA'' \<longrightarrow>
         prompt_file_exists_action w =
           (Inr True, w\<lparr>stdin := rest, trace := trace w @ [Prompt],
                        file_exists_action := asc ''RA''\<rparr>)) \<and>
      (strip (py_upper line) = asc ''SA'' \<longrightarrow>
         prompt_file_exists_action w =
           (Inr False, w\<lparr>stdin := rest, trace := trace w @ [Prompt],
                         file_exists_action := asc ''SA''\<rparr>)) \<and>
      (strip (py_upper line) = asc ''R'' \<longrightarrow>
         prompt_file_exists_action w =
           (Inr True, w\<lparr>stdin := rest, trace := trace w @ [Prompt]\<rparr>)) \<and>
      (strip (py_upper line) = asc ''S'' \<longrightarrow>
         prompt_file_exists_action w =
           (Inr False, w\<lparr>stdin := rest, trace := trace w @ [Prompt]\<rparr>)))"
proof (intro conjI impI)
  assume s: "file_exists_action w = asc ''RA'' \<or> file_exists_action w = asc ''SA''"
  show "prompt_file_exists_action w = (Inr (file_exists_action w = asc ''RA''), w)"
    using s by (rule prompt_sticky)
  obtain r w' where ml: "main_loop E songs n w = (r, w')"
    by (cases "main_loop E songs n w")
  from main_loop_keep [OF s ml] ml
  show "file_exists_action (snd (main_loop E songs n w)) = file_exists_action w"
    "stdin (snd (main_loop E songs n w)) = stdin w"
    "prompts (snd (main_loop E songs n w)) = prompts w"
    by simp_all
next
  assume "file_exists_action w = asc ''RA'' \<or> file_exists_action w = asc ''SA''"
    and "yt_title E link = Inr title \<and>
       files w (path_join (asc ''../music'')
                  (filter (\<lambda>c. c \<notin> set [47, 92, 124, 63, 42, 58, 62, 60, 34]) title @
                   asc ''.mp3'')) \<noteq> None"
    and "file_exists_action w = asc ''SA''"
  then show "download_yt E w link = (Inr None, w)"
    by (simp add: download_yt_def prompt_file_exists_action_def asc_def)
next
  assume "file_exists_action w = asc ''RA'' \<or> file_exists_action w = asc ''SA''"
    and "yt_title E link = Inr title \<and>
       files w (path_join (asc ''../music'')
                  (filter (\<lambda>c. c \<notin> set [47, 92, 124, 63, 42, 58, 62, 60, 34]) title @
                   asc ''.mp3'')) \<noteq> None"
    and "file_exists_action w = asc ''RA'' \<and> yt_audio E link = Inr audio"
  then show "download_yt E w link =
              (Inr (Some (path_join (asc ''../music/tmp'')
                  (filter (\<lambda>c. c \<notin> set [47, 92, 124, 63, 42, 58, 62, 60, 34]) title @
                   asc ''.mp3''))),
               w\<lparr>files := (files w)(path_join (asc ''../music/tmp'')
                  (filter (\<lambda>c. c \<notin> set [47, 92, 124, 63, 42, 58, 62, 60, 34]) title @
                   asc ''.mp3'') \<mapsto> audio)\<rparr>)"
    by (simp add: download_yt_def prompt_file_exists_action_def Let_def)
next
  assume u: "file_exists_action w \<noteq> asc ''RA'' \<and> file_exists_action w \<noteq> asc ''SA'' \<and>
    stdin w = line # rest"
  note p = prompt_unset [of w line rest]
  { assume "strip (py_upper line) = asc ''RA''"
    with u p show "prompt_file_exists_action w =
           (Inr True, w\<lparr>stdin := rest, trace := trace w @ [Prompt],
                        file_exists_action := asc ''RA''\<rparr>)" by simp }
  { assume "strip (py_upper line) = asc ''SA''"
    with u p show "prompt_file_exists_action w =
           (Inr False, w\<lparr>stdin := rest, trace := trace w @ [Prompt],
                         file_exists_action := asc ''SA''\<rparr>)" by (simp add: asc_def) }
  { assume "strip (py_upper line) = asc ''R''"
    with u p show "prompt_file_exists_action w =
           (Inr True, w\<lparr>stdin := rest, trace := trace w @ [Prompt]\<rparr>)" by (simp add: asc_def) }
  { assume "strip (py_upper line) = asc ''S''"
    with u p show "prompt_file_exists_action w =
           (Inr False, w\<lparr>stdin := rest, trace := trace w @ [Prompt]\<rparr>)" by (simp add: asc_def) }
qed

theorem sticky_decision_witness:
  "prompt_file_exists_action (fresh\<lparr>file_exists_action := asc ''SA''\<rparr>) =
     (Inr False, fresh\<lparr>file_exists_action := asc ''SA''\<rparr>) \<and>
   download_yt demo
     (fresh\<lparr>file_exists_action := asc ''SA'',
            files := [asc ''../music/song a.mp3'' \<mapsto> None]\<rparr>)
     (asc ''https://www.youtube.com/watch?v=0123456789a'') =
     (Inr None,
      fresh\<lparr>file_exists_action := asc ''SA'',
            files := [asc ''../music/song a.mp3'' \<mapsto> None]\<rparr>) \<and>
   download_yt demo
     (fresh\<lparr>file_exists_action := asc ''RA'',
            files := [asc ''../music/song a.mp3'' \<mapsto> None]\<rparr>)
     (asc ''https://www.youtube.com/watch?v=0123456789a'') =
     (Inr (Some (asc ''../music/tmp/song a.mp3'')),
      fresh\<lparr>file_exists_action := asc ''RA'',
            files := [asc ''../music/song a.mp3'' \<mapsto> None,
                      asc ''../music/tmp/song a.mp3'' \<mapsto> None]\<rparr>) \<and>
   prompt_file_exists_action (fresh\<lparr>stdin := [asc '' ra '']\<rparr>) =
     (Inr True, fresh\<lparr>stdin := [], trace := [Prompt], file_exists_action := asc ''RA''\<rparr>) \<and>
   prompt_file_exists_action (fresh\<lparr>stdin := [asc ''s'']\<rparr>) =
     (Inr False, fresh\<lparr>stdin := [], trace := [Prompt]\<rparr>)"
  using
    sticky_decision [where w = "fresh\<lparr>file_exists_action := asc ''RA'',
            files := [asc ''../music/song a.mp3'' \<mapsto> None]\<rparr>" and E = demo
      and link = "asc ''https://www.youtube.com/watch?v=0123456789a''"
      and title = "asc ''song a''" and audio = None]
    sticky_decision [where w = "fresh\<lparr>file_exists_action := asc ''SA'',
            files := [asc ''../music/song a.mp3'' \<mapsto> None]\<rparr>" and E = demo
      and link = "asc ''https://www.youtube.com/watch?v=0123456789a''"
      and title = "asc ''song a''"]
    sticky_decision [where w = "fresh\<lparr>file_exists_action := asc ''SA''\<rparr>"]
    sticky_decision [where w = "fresh\<lparr>stdin := [asc '' ra '']\<rparr>" and line = "asc '' ra ''"
      and rest = "[]"]
    sticky_decision [where w = "fresh\<lparr>stdin := [asc ''s'']\<rparr>" and line = "asc ''s''"
      and rest = "[]"]
  by (simp add: fresh_def demo_def string_defs py_upper_def)

section \<open>Properties of the tag writers and of the tagger\<close>

lemma assigned_store:
  "assigned_value (store_if_present d field key a) k =
     (if k = field
      then (case d key of
              None \<Rightarrow> assigned_value a k
            | Some val \<Rightarrow>
                if val \<noteq> []
                then Some [if val = asc ''[unknown]'' then asc ''Unknown'' else val]
                else assigned_value a k)
      else assigned_value a k)"
  by (auto simp: store_if_present_def assigned_value_def split: option.splits)

lemma assigned_store_other:
  "d key = None \<or> d key = Some [] \<or> k \<noteq> field \<Longrightarrow>
     assigned_value (store_if_present d field key a) k = assigned_value a k"
  by (auto simp: assigned_store)

lemma tagger_unassigned:
  assumes "d k = None \<or> d k = Some [] \<or>
           k \<notin> set [''title'', ''artist'', ''album'', ''date'', ''composer'', ''genre'']"
  shows "assigned_value (tagger_assignments d) k = None"
proof -
  have *: "d fld = None \<or> d fld = Some [] \<or> k \<noteq> fld"
    if "fld \<in> set [''title'', ''artist'', ''album'', ''date'', ''composer'', ''genre'']" for fld
    using assms that by (cases "k = fld") auto
  have "assigned_value (store_if_present d fld fld a) k = assigned_value a k"
    if "fld \<in> set [''title'', ''artist'', ''album'', ''date'', ''composer'', ''genre'']" for fld a
    by (rule assigned_store_other) (rule * [OF that])
  then show ?thesis
    by (simp add: tagger_assignments_def Let_def) (simp add: assigned_value_def)
qed

lemma tagger_assigned:
  assumes "d k = Some v" "v \<noteq> []"
    "k \<in> set [''title'', ''artist'', ''album'', ''date'', ''composer'', ''genre'']"
  shows "assigned_value (tagger_assignments d) k =
           Some [if v = asc ''[unknown]'' then asc ''Unknown'' else v]"
proof -
  from assms(3) have "k = ''title'' \<or> k = ''artist'' \<or> k = ''album'' \<or> k = ''date'' \<or>
      k = ''composer'' \<or> k = ''genre''"
    by simp
  then show ?thesis
  proof (elim disjE)
    assume "k = ''title''"
    with assms(1,2) show ?thesis by (simp add: tagger_assignments_def assigned_store)
  next
    assume "k = ''artist''"
    with assms(1,2) show ?thesis by (simp add: tagger_assignments_def assigned_store)
  next
    assume "k = ''album''"
    with assms(1,2) show ?thesis by (simp add: tagger_assignments_def assigned_store)
  next
    assume "k = ''date''"
    with assms(1,2) show ?thesis by (simp add: tagger_assignments_def assigned_store)
  next
    assume "k = ''composer''"
    with assms(1,2) show ?thesis by (simp add: tagger_assignments_def assigned_store)
  next
    assume "k = ''genre''"
    with assms(1,2) show ?thesis by (simp add: tagger_assignments_def assigned_store)
  qed
qed

lemma set_id3_tags_other: "q \<noteq> p \<Longrightarrow> set_id3_tags T fs p d q = fs q"
  by (simp add: set_id3_tags_def Let_def split: option.splits sum.splits)

lemma set_id3_tags_fields:
  "fields_on_disk (set_id3_tags T fs p d) p =
     (if fs p = None \<or> save_error T (tagger_assignments d) \<noteq> None then fields_on_disk fs p
      else (\<lambda>k. case assigned_value (tagger_assignments d) k of
                   None \<Rightarrow> kept T (fields_on_disk fs p) k
                 | Some v \<Rightarrow> stored T k v))"
  by (auto simp: set_id3_tags_def easy_save_def fields_on_disk_def empty_id3_def Let_def
      split: option.splits)



lemma downloader_assigned:
  "assigned_value (downloader_assignments m) ''albumartist'' = Some [artist_name m]"
  "assigned_value (downloader_assignments m) ''artist'' = Some (artists m)"
  "assigned_value (downloader_assignments m) ''album'' = Some [album_name m]"
  "assigned_value (downloader_assignments m) ''title'' = Some [track_title m]"
  "assigned_value (downloader_assignments m) ''date'' = Some [release_date m]"
  "assigned_value (downloader_assignments m) ''tracknumber'' = Some [py_str (track_number m)]"
  "assigned_value (downloader_assignments m) ''isrc'' =
     (if isrc m \<noteq> [] then Some [isrc m] else None)"
  by (simp_all add: assigned_value_def downloader_assignments_def)

lemma set_metadata_ok:
  "fst (set_metadata E w m p) = Inr () \<longleftrightarrow>
     files w p \<noteq> None \<and> save_error (tag_library E) (downloader_assignments m) = None \<and>
     (\<exists>b. urlopen_art E (album_art m) = Inr b)"
  by (auto simp: set_metadata_def easy_save_def Let_def split: option.splits sum.splits)

lemma set_metadata_success:
  assumes "fst (set_metadata E w m p) = Inr ()"
  shows "\<exists>b. urlopen_art E (album_art m) = Inr b \<and>
           fields_on_disk (files (snd (set_metadata E w m p))) p =
             (\<lambda>k. case assigned_value (downloader_assignments m) k of
                     None \<Rightarrow>
                       kept_v23 (tag_library E)
                         (\<lambda>k. case assigned_value (downloader_assignments m) k of
                                 None \<Rightarrow> kept (tag_library E) (fields_on_disk (files w) p) k
                               | Some v \<Rightarrow> stored (tag_library E) k v) k
                   | Some v \<Rightarrow> stored_v23 (tag_library E) k v) \<and>
           pictures_on_disk (files (snd (set_metadata E w m p))) p =
             loaded_pictures (tag_library E)
               (loaded_pictures (tag_library E) (pictures_on_disk (files w) p)) @ [cover b]"
proof -
  from assms obtain fl b where h: "files w p = Some fl"
    "save_error (tag_library E) (downloader_assignments m) = None"
    "urlopen_art E (album_art m) = Inr b"
    by (auto simp: set_metadata_ok)
  show ?thesis
  proof (cases fl)
    case None
    with h show ?thesis
      by (simp add: set_metadata_def easy_save_def save_v23_def fields_on_disk_def
          pictures_on_disk_def empty_id3_def Let_def cong: option.case_cong)
  next
    case (Some t)
    with h show ?thesis
      by (simp add: set_metadata_def easy_save_def save_v23_def fields_on_disk_def
          pictures_on_disk_def Let_def cong: option.case_cong)
  qed
qed

lemma set_metadata_assigned_field:
  assumes "fst (set_metadata E w m p) = Inr ()"
    and "assigned_value (downloader_assignments m) k = Some v"
  shows "fields_on_disk (files (snd (set_metadata E w m p))) p k = stored_v23 (tag_library E) k v"
  using set_metadata_success [OF assms(1)] assms(2) by auto


lemmas taglib_defs = example_taglib_def written_def easy_save_def save_v23_def
  assigned_value_def downloader_assignments_def cover_def empty_id3_def

text \<open>
  Claim C8, as stated, fails for \<open>set_metadata\<close>: for a record whose album name is
  empty it assigns the empty value to the album field, and with a tag library that writes
  no frame for an empty text the album the file carried is gone afterwards.
\<close>

theorem set_metadata_removes_album:
  "assigned_value (downloader_assignments no_album) ''album'' = Some [[]] \<and>
   fields_on_disk old_album (asc ''../music/tmp/song a.mp3'') ''album'' = Some [asc ''Old''] \<and>
   fst (set_metadata demo (fresh\<lparr>files := old_album\<rparr>) no_album
          (asc ''../music/tmp/song a.mp3'')) = Inr () \<and>
   fields_on_disk
     (files (snd (set_metadata demo (fresh\<lparr>files := old_album\<rparr>) no_album
                    (asc ''../music/tmp/song a.mp3''))))
     (asc ''../music/tmp/song a.mp3'') ''album'' = None"
  by (simp add: set_metadata_def taglib_defs fields_on_disk_def old_album_def no_album_def
      demo_def fresh_def py_str_def Let_def)

text \<open>
  Claim C8, amended. \<open>set_id3_tags\<close> assigns, of its six fields, exactly those that are
  present and non-empty in the record (with the value of the record, "[unknown]" turned
  into "Unknown") and no other field; a field it does not assign is unchanged on the file
  wherever the tag library saves that field back as it read it, every other file is
  untouched, and an assigned field holds what the tag library stores for the assigned
  value. \<open>set_metadata\<close> assigns albumartist, artist, album, title, date and tracknumber
  with the values of the record, empty or not, assigns isrc only when it is not empty and
  assigns no other field; after a successful write an assigned field holds what the tag
  library stores for the assigned value.
\<close>

theorem tag_writers_frame:
  "(mb_data k = None \<or> mb_data k = Some [] \<or>
    k \<notin> set [''title'', ''artist'', ''album'', ''date'', ''composer'', ''genre''] \<longrightarrow>
      assigned_value (tagger_assignments mb_data) k = None \<and>
      (kept T (fields_on_disk fs path) k = fields_on_disk fs path k \<longrightarrow>
         fields_on_disk (set_id3_tags T fs path mb_data) path k = fields_on_disk fs path k)) \<and>
   (q \<noteq> path \<longrightarrow> set_id3_tags T fs path mb_data q = fs q) \<and>
   (mb_data k = Some v \<and> v \<noteq> [] \<and>
    k \<in> set [''title'', ''artist'', ''album'', ''date'', ''composer'', ''genre''] \<longrightarrow>
      assigned_value (tagger_assignments mb_data) k =
        Some [if v = asc ''[unknown]'' then asc ''Unknown'' else v] \<and>
      (fs path \<noteq> None \<and> save_error T (tagger_assignments mb_data) = None \<longrightarrow>
         fields_on_disk (set_id3_tags T fs path mb_data) path k =
           stored T k [if v = asc ''[unknown]'' then asc ''Unknown'' else v])) \<and>
   assigned_value (downloader_assignments m) ''albumartist'' = Some [artist_name m] \<and>
   assigned_value (downloader_assignments m) ''artist'' = Some (artists m) \<and>
   assigned_value (downloader_assignments m) ''album'' = Some [album_name m] \<and>
   assigned_value (downloader_assignments m) ''title'' = Some [track_title m] \<and>
   assigned_value (downloader_assignments m) ''date'' = Some [release_date m] \<and>
   assigned_value (downloader_assignments m) ''tracknumber'' =
     Some [py_str (track_number m)] \<and>
   assigned_value (downloader_assignments m) ''isrc'' =
     (if isrc m \<noteq> [] then Some [isrc m] else None) \<and>
   (k \<notin> set [''albumartist'', ''artist'', ''album'', ''title'', ''date'', ''tracknumber'',
              ''isrc''] \<longrightarrow>
      assigned_value (downloader_assignments m) k = None) \<and>
   (fst (set_metadata E w m path) = Inr () \<and>
    assigned_value (downloader_assignments m) k = Some vs \<longrightarrow>
      fields_on_disk (files (snd (set_metadata E w m path))) path k =
        stored_v23 (tag_library E) k vs)"
proof (intro conjI impI)
  assume a: "mb_data k = None \<or> mb_data k = Some [] \<or>
    k \<notin> set [''title'', ''artist'', ''album'', ''date'', ''composer'', ''genre'']"
  from tagger_unassigned [where d = mb_data and k = k, OF a]
  show u: "assigned_value (tagger_assignments mb_data) k = None" .
  assume "kept T (fields_on_disk fs path) k = fields_on_disk fs path k"
  with u show "fields_on_disk (set_id3_tags T fs path mb_data) path k = fields_on_disk fs path k"
    by (simp add: set_id3_tags_fields)
next
  assume "q \<noteq> path"
  then show "set_id3_tags T fs path mb_data q = fs q"
    by (rule set_id3_tags_other)
next
  assume a: "mb_data k = Some v \<and> v \<noteq> [] \<and>
    k \<in> set [''title'', ''artist'', ''album'', ''date'', ''composer'', ''genre'']"
  then show u: "assigned_value (tagger_assignments mb_data) k =
        Some [if v = asc ''[unknown]'' then asc ''Unknown'' else v]"
    by (intro tagger_assigned) simp_all
  assume "fs path \<noteq> None \<and> save_error T (tagger_assignments mb_data) = None"
  with u show "fields_on_disk (set_id3_tags T fs path mb_data) path k =
           stored T k [if v = asc ''[unknown]'' then asc ''Unknown'' else v]"
    by (auto simp: set_id3_tags_fields)
next
  assume "k \<notin> set [''albumartist'', ''artist'', ''album'', ''title'', ''date'', ''tracknumber'',
              ''isrc'']"
  then show "assigned_value (downloader_assignments m) k = None"
    by (simp add: assigned_value_def downloader_assignments_def)
next
  assume "fst (set_metadata E w m path) = Inr () \<and>
    assigned_value (downloader_assignments m) k = Some vs"
  then show "fields_on_disk (files (snd (set_metadata E w m path))) path k =
        stored_v23 (tag_library E) k vs"
    by (simp add: set_metadata_assigned_field)
qed (simp_all add: downloader_assigned)

theorem tag_writers_frame_witness:
  "fields_on_disk (set_id3_tags example_taglib old_album (asc ''../music/tmp/song a.mp3'')
       [''title'' \<mapsto> asc ''[unknown]'', ''album'' \<mapsto> []])
     (asc ''../music/tmp/song a.mp3'') ''album'' = Some [asc ''Old''] \<and>
   fields_on_disk (set_id3_tags example_taglib old_album (asc ''../music/tmp/song a.mp3'')
       [''title'' \<mapsto> asc ''[unknown]'', ''album'' \<mapsto> []])
     (asc ''../music/tmp/song a.mp3'') ''title'' = Some [asc ''Unknown''] \<and>
   fields_on_disk
     (files (snd (set_metadata demo (fresh\<lparr>files := old_album\<rparr>) track_a
                    (asc ''../music/tmp/song a.mp3''))))
     (asc ''../music/tmp/song a.mp3'') ''album'' = Some [asc ''Album'']"
proof -
  let ?p = "asc ''../music/tmp/song a.mp3''"
  let ?d = "[''title'' \<mapsto> asc ''[unknown]'', ''album'' \<mapsto> []]"
  let ?w = "fresh\<lparr>files := old_album\<rparr>"
  have f: "fields_on_disk old_album ?p = [''album'' \<mapsto> [asc ''Old'']]"
    by (simp add: fields_on_disk_def old_album_def)
  have 1: "fields_on_disk (set_id3_tags example_taglib old_album ?p ?d) ?p ''album'' =
      Some [asc ''Old'']"
    using tag_writers_frame [where k = "''album''" and path = ?p and mb_data = ?d
        and fs = old_album and T = example_taglib]
    by (simp add: f) (simp add: example_taglib_def written_def asc_def)
  have ex: "old_album ?p \<noteq> None" "save_error example_taglib a = None" for a
    by (simp_all add: old_album_def example_taglib_def)
  have 2: "fields_on_disk (set_id3_tags example_taglib old_album ?p ?d) ?p ''title'' =
      Some [asc ''Unknown'']"
    using tag_writers_frame [where k = "''title''" and path = ?p and mb_data = ?d
        and fs = old_album and T = example_taglib and v = "asc ''[unknown]''"] ex
    by (simp add: asc_def) (simp add: example_taglib_def written_def)
  have ok: "fst (set_metadata demo ?w track_a ?p) = Inr ()"
    by (simp add: set_metadata_ok fresh_def demo_def old_album_def example_taglib_def)
  have 3: "fields_on_disk (files (snd (set_metadata demo ?w track_a ?p))) ?p ''album'' =
      Some [asc ''Album'']"
    using tag_writers_frame [where k = "''album''" and path = ?p and m = track_a and E = demo
        and w = ?w and vs = "[asc ''Album'']"] ok
    by (simp add: track_a_def) (simp add: demo_def example_taglib_def written_def asc_def)
  from 1 2 3 show ?thesis by simp
qed







end
